theory Spec2Isabelle
  imports Complex_Main
begin

section \<open>Numeric conventions\<close>

text \<open>
  The analyser of \<^verbatim>\<open>scripts/analyze_audio.py\<close> and the per-dialogue settings of
  \<^verbatim>\<open>scripts/test_audio_comparison.py\<close> compute with Python floats. A float is read as
  the \<^typ>\<open>real\<close> number it denotes, and comparisons, \<^verbatim>\<open>max\<close> and \<^verbatim>\<open>min\<close> are those
  of the reals. Clamping, the timing statistics, the clarity score and the emotion
  scores are modelled with exact arithmetic. The pitch trajectory, the band ratios and
  the dialogue pitch entries, where a result can turn on how an operation rounds, take
  their arithmetic from a record of operations (section Floating-point arithmetic). The
  one place where the code produces a NaN from well-formed inputs (\<^verbatim>\<open>np.std\<close> of an
  empty list) is a \<open>None\<close> in the model. Python strings are \<^typ>\<open>string\<close>, a \<^verbatim>\<open>dict\<close>
  whose keys may be missing is a map.
\<close>

definition np_mean :: "real list \<Rightarrow> real" where
  \<comment> \<open>\<^verbatim>\<open>np.mean\<close>; every call in the modelled code is guarded by a non-emptiness test.\<close>
  "np_mean xs = sum_list xs / real (length xs)"

definition std_pop :: "real list \<Rightarrow> real" where
  \<comment> \<open>the population standard deviation \<^verbatim>\<open>np.std\<close> computes on a non-empty array\<close>
  "std_pop xs = sqrt (np_mean (map (\<lambda>x. (x - np_mean xs)\<^sup>2) xs))"

definition np_std :: "real list \<Rightarrow> real option" where
  \<comment> \<open>\<^verbatim>\<open>np.std\<close>: NaN (here \<open>None\<close>) on an empty array, with a warning the script silences\<close>
  "np_std xs = (if xs = [] then None else Some (std_pop xs))"

section \<open>Floating-point arithmetic\<close>

text \<open>
  The operations whose rounding matters are the fields of a record: the sum, the
  difference and the quotient of two floats, \<^verbatim>\<open>np.sum\<close> and \<^verbatim>\<open>np.mean\<close> of an array. A
  property proved for every such record holds for the arithmetic of the interpreter and
  of numpy, in whatever order numpy adds the elements of an array.

  \<open>double_arith\<close> is the arithmetic of IEEE doubles: each result is the exact result
  rounded to the nearest double, a tie to the one with an even significand. Its exponent
  range is not bounded (no overflow, no subnormal numbers), and its sums add from left
  to right: numpy, which adds in an order of its own, returns the same double whenever
  every partial sum is exact, as in each example below. \<open>tenth\<close> is the Python literal
  \<^verbatim>\<open>0.1\<close>, the double nearest to one tenth.
\<close>

record arith =
  fadd :: "real \<Rightarrow> real \<Rightarrow> real"
  fsub :: "real \<Rightarrow> real \<Rightarrow> real"
  fdiv :: "real \<Rightarrow> real \<Rightarrow> real"
  fsum :: "real list \<Rightarrow> real"
  fmean :: "real list \<Rightarrow> real"

definition round_half_even :: "real \<Rightarrow> int" where
  "round_half_even y =
     (let f = \<lfloor>y\<rfloor>
      in if y - of_int f < 1 / 2 then f
         else if y - of_int f > 1 / 2 then f + 1
         else if even f then f
         else f + 1)"

definition round_double :: "real \<Rightarrow> real" where
  \<comment> \<open>53 significant bits: the unit in the last place of \<open>x\<close> is \<open>2\<close> to the power
      \<open>\<lfloor>log\<^sub>2 \<bar>x\<bar>\<rfloor> - 52\<close>\<close>
  "round_double x =
     (if x = 0 then 0
      else let u = 2 powr (of_int \<lfloor>log 2 \<bar>x\<bar>\<rfloor> - 52)
           in of_int (round_half_even (x / u)) * u)"

definition double_sum :: "real list \<Rightarrow> real" where
  "double_sum xs = foldl (\<lambda>a x. round_double (a + x)) 0 xs"

definition double_arith :: arith where
  "double_arith =
     \<lparr> fadd = (\<lambda>a b. round_double (a + b)),
       fsub = (\<lambda>a b. round_double (a - b)),
       fdiv = (\<lambda>a b. round_double (a / b)),
       fsum = double_sum,
       fmean = (\<lambda>xs. round_double (double_sum xs / real (length xs))) \<rparr>"

definition tenth :: real where
  "tenth = round_double (1 / 10)"

text \<open>
  The accuracy of an arithmetic: a computed value is within the relative error \<open>r\<close> of
  the exact one.
\<close>

definition rel_close :: "real \<Rightarrow> real \<Rightarrow> real \<Rightarrow> bool" where
  "rel_close r computed exact = (\<bar>computed - exact\<bar> \<le> r * \<bar>exact\<bar>)"

section \<open>Pitch trajectory\<close>

text \<open>
  \<^verbatim>\<open>AudioAnalyzer._determine_pitch_trajectory\<close>. The slice \<^verbatim>\<open>pitch_contour[:third]\<close> is
  \<open>take third\<close>; \<^verbatim>\<open>pitch_contour[-third:]\<close> with \<open>0 < third \<le> len\<close> is
  \<open>drop (len - third)\<close>. The means, the difference and the quotient are those of the
  arithmetic \<open>A\<close>, and the thresholds are the literal \<^verbatim>\<open>0.1\<close> and its negation.
\<close>

definition determine_pitch_trajectory :: "arith \<Rightarrow> real list \<Rightarrow> string" where
  "determine_pitch_trajectory A pitch_contour =
     (if length pitch_contour < 3 then ''stable''
      else
        let third = length pitch_contour div 3;
            start_third = (if third > 0 then fmean A (take third pitch_contour) else 0);
            end_third = (if third > 0
                         then fmean A (drop (length pitch_contour - third) pitch_contour)
                         else 0)
        in if start_third = 0 \<or> end_third = 0 then ''stable''
           else
             let change_ratio = fdiv A (fsub A end_third start_third) start_third
             in if change_ratio > tenth then ''rising''
                else if change_ratio < - tenth then ''falling''
                else ''stable'')"

text \<open>
  The quantities the specification names, as the program computes them: the mean of the
  first third of a contour, the mean of its last third, and the change of the second
  relative to the first.
\<close>

definition first_third_mean :: "arith \<Rightarrow> real list \<Rightarrow> real" where
  "first_third_mean A xs = fmean A (take (length xs div 3) xs)"

definition last_third_mean :: "arith \<Rightarrow> real list \<Rightarrow> real" where
  "last_third_mean A xs = fmean A (rev (take (length xs div 3) (rev xs)))"

definition relative_change :: "arith \<Rightarrow> real list \<Rightarrow> real" where
  "relative_change A xs =
     fdiv A (fsub A (last_third_mean A xs) (first_third_mean A xs)) (first_third_mean A xs)"

text \<open>
  The means of the first and of the last third of a contour are accurate when each is
  within the relative error \<open>r\<close> of the exact mean.
\<close>

definition thirds_accurate :: "arith \<Rightarrow> real \<Rightarrow> real list \<Rightarrow> bool" where
  "thirds_accurate A r xs =
     (rel_close r (fmean A (take (length xs div 3) xs)) (np_mean (take (length xs div 3) xs))
      \<and> rel_close r (fmean A (drop (length xs - length xs div 3) xs))
           (np_mean (drop (length xs - length xs div 3) xs)))"

section \<open>Timing patterns\<close>

text \<open>
  \<^verbatim>\<open>AudioAnalyzer._analyze_timing_patterns\<close>. The onset times, the framed RMS energy, its
  20th percentile and the major onsets come from librosa and numpy and are inputs of the
  model; \<^verbatim>\<open>librosa.frames_to_time(i, sr, hop_length)\<close> is \<open>i * hop_length / sr\<close>.
\<close>

definition np_min :: "real list \<Rightarrow> real" where
  \<comment> \<open>\<^verbatim>\<open>np.min\<close>; every call in the modelled code is guarded by a non-emptiness test.\<close>
  "np_min xs = Min (set xs)"

definition np_max :: "real list \<Rightarrow> real" where
  \<comment> \<open>\<^verbatim>\<open>np.max\<close>; every call in the modelled code is guarded by a non-emptiness test.\<close>
  "np_max xs = Max (set xs)"

record timing_analysis =
  average_pause_duration_seconds :: real
  min_pause_duration :: real
  max_pause_duration :: real
  average_silence_duration :: real
  segment_count :: nat
  total_onsets :: nat
  speech_rhythm_regularity :: "real option"

definition pause_durations :: "real list \<Rightarrow> real list" where
  "pause_durations onsets =
     (if length onsets > 1
      then map (\<lambda>i. onsets ! (i + 1) - onsets ! i) [0..<length onsets - 1]
      else [])"

definition frames_to_time :: "nat \<Rightarrow> nat \<Rightarrow> nat \<Rightarrow> real" where
  "frames_to_time i sr hop_length = real (i * hop_length) / real sr"

fun silence_durations :: "nat \<Rightarrow> bool list \<Rightarrow> nat \<Rightarrow> real option \<Rightarrow> real list" where
  "silence_durations sr [] i current_silence_start = []"
| "silence_durations sr (is_silent # rest) i current_silence_start =
     (let time = frames_to_time i sr 512
      in case current_silence_start of
           None \<Rightarrow>
             (if is_silent then silence_durations sr rest (i + 1) (Some time)
              else silence_durations sr rest (i + 1) None)
         | Some start \<Rightarrow>
             (if is_silent then silence_durations sr rest (i + 1) (Some start)
              else (time - start) # silence_durations sr rest (i + 1) None))"

definition analyze_timing_patterns ::
  "real list \<Rightarrow> real list \<Rightarrow> real \<Rightarrow> nat \<Rightarrow> real list \<Rightarrow> timing_analysis" where
  "analyze_timing_patterns onsets rms rms_threshold sr major_onsets =
     (let pauses = pause_durations onsets;
          avg_pause = (if pauses \<noteq> [] then np_mean pauses else 0.3);
          min_pause = (if pauses \<noteq> [] then np_min pauses else 0.1);
          max_pause = (if pauses \<noteq> [] then np_max pauses else 1.0);
          silence_frames = map (\<lambda>r. r < rms_threshold) rms;
          avg_silence =
            (if filter (\<lambda>b. b) silence_frames \<noteq> []
             then (let ds = silence_durations sr silence_frames 0 None
                   in if ds \<noteq> [] then np_mean ds else avg_pause)
             else avg_pause)
      in \<lparr> average_pause_duration_seconds = avg_pause,
           min_pause_duration = min_pause,
           max_pause_duration = max_pause,
           average_silence_duration = avg_silence,
           segment_count = length major_onsets,
           total_onsets = length onsets,
           speech_rhythm_regularity =
             (if avg_pause > 0
              then (case np_std pauses of
                      None \<Rightarrow> None
                    | Some sd \<Rightarrow> Some (1.0 - sd / avg_pause))
              else Some 0.5) \<rparr>)"

section \<open>Audio quality\<close>

text \<open>
  \<^verbatim>\<open>AudioAnalyzer._analyze_audio_quality\<close>. The inputs are the framed RMS energy and the
  spectrum: the list of the frequency bins of \<^verbatim>\<open>np.fft.fftfreq\<close>, each with its
  coefficient of \<^verbatim>\<open>np.fft.fft\<close>; the magnitude is the modulus of the coefficient.
  \<^verbatim>\<open>np.max\<close> of an empty RMS array raises, and the handler stores an error record:
  the result \<open>None\<close>. The spectrum of a buffer with a sample is not empty; an empty
  spectrum, for which \<^verbatim>\<open>np.fft.fft\<close> raises, is outside the model.
\<close>

record audio_quality =
  rms_energy_avg :: real
  rms_energy_max :: real
  rms_energy_min :: real
  dynamic_range_db :: real
  low_freq_energy_ratio :: real
  mid_freq_energy_ratio :: real
  high_freq_energy_ratio :: real
  clarity_score :: real

definition band_energy :: "(real \<Rightarrow> bool) \<Rightarrow> (real \<times> complex) list \<Rightarrow> real" where
  \<comment> \<open>\<^verbatim>\<open>np.sum(magnitude[mask])\<close>\<close>
  "band_energy in_band spectrum =
     sum_list (map (\<lambda>(f, c). cmod c) (filter (\<lambda>(f, c). in_band f) spectrum))"

definition low_energy :: "(real \<times> complex) list \<Rightarrow> real" where
  "low_energy spectrum = band_energy (\<lambda>f::real. f \<ge> 0 \<and> f \<le> 300) spectrum"

definition mid_energy :: "(real \<times> complex) list \<Rightarrow> real" where
  "mid_energy spectrum = band_energy (\<lambda>f::real. f > 300 \<and> f \<le> 3000) spectrum"

definition high_energy :: "(real \<times> complex) list \<Rightarrow> real" where
  "high_energy spectrum = band_energy (\<lambda>f::real. f > 3000 \<and> f \<le> 8000) spectrum"

definition total_energy :: "(real \<times> complex) list \<Rightarrow> real" where
  "total_energy spectrum = low_energy spectrum + mid_energy spectrum + high_energy spectrum"

definition analyze_audio_quality ::
  "real list \<Rightarrow> (real \<times> complex) list \<Rightarrow> audio_quality option" where
  "analyze_audio_quality rms spectrum =
     (if rms = [] then None
      else
        let avg_rms = np_mean rms;
            max_rms = np_max rms;
            min_rms = np_min rms;
            dynamic_range = (if min_rms > 0 then 20 * log 10 (max_rms / min_rms) else 0);
            total = total_energy spectrum
        in Some \<lparr> rms_energy_avg = avg_rms,
                  rms_energy_max = max_rms,
                  rms_energy_min = min_rms,
                  dynamic_range_db = dynamic_range,
                  low_freq_energy_ratio =
                    (if total > 0 then low_energy spectrum / total else 0),
                  mid_freq_energy_ratio =
                    (if total > 0 then mid_energy spectrum / total else 0),
                  high_freq_energy_ratio =
                    (if total > 0 then high_energy spectrum / total else 0),
                  clarity_score =
                    (if total > 0 then mid_energy spectrum / total else 0.5) \<rparr>)"

section \<open>Band ratios in floating point\<close>

text \<open>
  The band energies and their ratios of \<^verbatim>\<open>AudioAnalyzer._analyze_audio_quality\<close> (the
  three masks, the three sums, the total and the three ratio entries), in the arithmetic
  \<open>A\<close>. The spectrum is the list of the frequency bins, each with its magnitude, the
  float that \<^verbatim>\<open>np.abs\<close> returned.
\<close>

record band_ratios =
  low_ratio :: real
  mid_ratio :: real
  high_ratio :: real

definition band_sum :: "arith \<Rightarrow> (real \<Rightarrow> bool) \<Rightarrow> (real \<times> real) list \<Rightarrow> real" where
  \<comment> \<open>\<^verbatim>\<open>np.sum(magnitude[mask])\<close>\<close>
  "band_sum A in_band spectrum =
     fsum A (map snd (filter (\<lambda>(f, m). in_band f) spectrum))"

definition band_total :: "arith \<Rightarrow> (real \<times> real) list \<Rightarrow> real" where
  \<comment> \<open>\<^verbatim>\<open>total_energy = low_energy + mid_energy + high_energy\<close>\<close>
  "band_total A spectrum =
     fadd A (fadd A (band_sum A (\<lambda>f. f \<ge> 0 \<and> f \<le> 300) spectrum)
                    (band_sum A (\<lambda>f. f > 300 \<and> f \<le> 3000) spectrum))
            (band_sum A (\<lambda>f. f > 3000 \<and> f \<le> 8000) spectrum)"

definition band_energy_ratios :: "arith \<Rightarrow> (real \<times> real) list \<Rightarrow> band_ratios" where
  "band_energy_ratios A spectrum =
     (let low_energy = band_sum A (\<lambda>f. f \<ge> 0 \<and> f \<le> 300) spectrum;
          mid_energy = band_sum A (\<lambda>f. f > 300 \<and> f \<le> 3000) spectrum;
          high_energy = band_sum A (\<lambda>f. f > 3000 \<and> f \<le> 8000) spectrum;
          total_energy = fadd A (fadd A low_energy mid_energy) high_energy
      in \<lparr> low_ratio = (if total_energy > 0 then fdiv A low_energy total_energy else 0),
           mid_ratio = (if total_energy > 0 then fdiv A mid_energy total_energy else 0),
           high_ratio = (if total_energy > 0 then fdiv A high_energy total_energy else 0) \<rparr>)"

text \<open>
  Two spectra for examples: three bins, one in each band, of magnitudes 2, 7 and 1; and
  a silent one.
\<close>

definition three_bins :: "(real \<times> real) list" where
  "three_bins = [(100, 2), (1000, 7), (5000, 1)]"

definition silent_bins :: "(real \<times> real) list" where
  "silent_bins = [(0, 0), (100, 0)]"

section \<open>Mapping the analysis to voice settings\<close>

text \<open>
  \<^verbatim>\<open>AudioAnalyzer._map_to_elevenlabs_settings\<close>. The four analysis dictionaries are
  maps from key to number: a stage that failed has stored an error record, in which
  none of the keys read here is present, and \<^verbatim>\<open>d.get(k, default)\<close> falls back.
  \<^verbatim>\<open>round(x, 2)\<close> rounds to the nearest multiple of 0.01, a tie to the even one. It is
  modelled on the exact value: a float that lies just off a tie (the literal
  \<^verbatim>\<open>0.475\<close> is below it, and Python gives 0.47) is rounded here as the tie is.
\<close>

definition dict_get :: "('k \<rightharpoonup> 'v) \<Rightarrow> 'k \<Rightarrow> 'v \<Rightarrow> 'v" where
  "dict_get d k dflt = (case d k of None \<Rightarrow> dflt | Some v \<Rightarrow> v)"

definition py_round2 :: "real \<Rightarrow> real" where
  "py_round2 x =
     (let y = x * 100; f = \<lfloor>y\<rfloor>
      in (if y - of_int f < 1 / 2 then of_int f
          else if y - of_int f > 1 / 2 then of_int (f + 1)
          else if even f then of_int f
          else of_int (f + 1)) / 100)"

record voice_settings =
  stability :: real
  similarity_boost :: real
  style :: real
  use_speaker_boost :: bool
  output_format :: string
  model_id :: string
  pause_duration_seconds :: real

definition map_to_elevenlabs_settings ::
  "(string \<rightharpoonup> real) \<Rightarrow> (string \<rightharpoonup> real) \<Rightarrow> (string \<rightharpoonup> real) \<Rightarrow> (string \<rightharpoonup> real)
     \<Rightarrow> voice_settings" where
  "map_to_elevenlabs_settings voice_characteristics audio_quality audio_properties timing =
     (let pitch_var = dict_get voice_characteristics ''pitch_variation_coefficient'' 0.3;
          stability_v = max 0.1 (min 0.9 (0.6 - (pitch_var * 0.5)));
          expressiveness = dict_get voice_characteristics ''expressiveness_score'' 0.5;
          clarity = dict_get audio_quality ''clarity_score'' 0.7;
          similarity_boost_v =
            max 0.3 (min 0.9 (0.5 + (clarity * 0.3) - (expressiveness * 0.2)));
          style_v = max 0.1 (min 0.9 (0.3 + (expressiveness * 0.4)));
          sample_rate = dict_get audio_properties ''sample_rate'' 44100;
          output_format_v =
            (if sample_rate \<ge> 44100 then ''mp3_44100_128''
             else if sample_rate \<ge> 22050 then ''mp3_22050_128''
             else ''mp3_44100_128'')
      in \<lparr> stability = py_round2 stability_v,
           similarity_boost = py_round2 similarity_boost_v,
           style = py_round2 style_v,
           use_speaker_boost = (clarity > 0.6),
           output_format = output_format_v,
           model_id = ''eleven_multilingual_v2'',
           pause_duration_seconds =
             py_round2 (dict_get timing ''average_pause_duration_seconds'' 0.3) \<rparr>)"

section \<open>Per-dialogue settings\<close>

text \<open>
  \<^verbatim>\<open>get_dialogue_settings_version_b\<close> of \<^verbatim>\<open>scripts/test_audio_comparison.py\<close>. The settings
  dictionary is a map holding its numeric entries (the flag \<^verbatim>\<open>use_speaker_boost\<close> and
  the two tags are never read or written by the function). The analysis configuration
  is read from JSON, so any key can be missing: the nested dictionaries are records of
  optional fields. A text is a string of ASCII characters.
\<close>

type_synonym settings = "string \<rightharpoonup> real"

definition DEFAULT_SETTINGS :: settings where
  "DEFAULT_SETTINGS =
     [''stability'' \<mapsto> 0.35, ''similarity_boost'' \<mapsto> 0.75, ''style'' \<mapsto> 0.55,
      ''pause_duration_seconds'' \<mapsto> 0.3]"

record script_opening =
  opening_pitch_trajectory :: "string option"
  opening_start_pitch_hz :: "real option"

record script_closing =
  closing_pitch_trajectory :: "string option"
  closing_end_pitch_hz :: "real option"

record dialogue_pitch_cfg =
  cfg_trajectory :: "string option"
  cfg_start_pitch_hz :: "real option"
  cfg_end_pitch_hz :: "real option"

record emotion_segment_cfg =
  cfg_index :: "int option"
  cfg_emotion_type :: "string option"
  cfg_intensity :: "real option"

record analysis_config =
  recommended_elevenlabs_settings :: "settings option"
  cfg_script_opening :: "script_opening option"
  cfg_script_closing :: "script_closing option"
  cfg_per_dialogue :: "dialogue_pitch_cfg list"
  cfg_emotion_segments :: "emotion_segment_cfg list"

definition opt_get :: "'a option \<Rightarrow> 'a \<Rightarrow> 'a" where
  \<comment> \<open>\<^verbatim>\<open>d.get(k, default)\<close> on a record field\<close>
  "opt_get v dflt = (case v of None \<Rightarrow> dflt | Some x \<Rightarrow> x)"

definition lower_char :: "char \<Rightarrow> char" where
  \<comment> \<open>\<^verbatim>\<open>str.lower\<close> on one ASCII character\<close>
  "lower_char c =
     (case map_of (zip ''ABCDEFGHIJKLMNOPQRSTUVWXYZ'' ''abcdefghijklmnopqrstuvwxyz'') c of
        Some l \<Rightarrow> l
      | None \<Rightarrow> c)"

fun starts_with :: "string \<Rightarrow> string \<Rightarrow> bool" where
  "starts_with [] s = True"
| "starts_with (p # ps) [] = False"
| "starts_with (p # ps) (c # cs) = (p = c \<and> starts_with ps cs)"

fun re_search :: "string \<Rightarrow> string \<Rightarrow> bool" where
  \<comment> \<open>\<^verbatim>\<open>re.search\<close> for a pattern that is one literal word\<close>
  "re_search word [] = starts_with word []"
| "re_search word (c # cs) = (starts_with word (c # cs) \<or> re_search word cs)"

definition detect_emotion_in_text :: "string \<Rightarrow> string option" where
  "detect_emotion_in_text text_v =
     (let text_lower = map lower_char text_v
      in if list_ex (\<lambda>w. re_search w text_lower)
              [''(laugh)'', ''(laughs)'', ''(giggle)'', ''(giggles)'',
               ''(chuckle)'', ''(chuckles)'']
         then Some ''laughter''
         else if list_ex (\<lambda>w. re_search w text_lower)
              [''(excite)'', ''(excited)'', ''(surprise)'', ''(surprised)'']
         then Some ''excitement''
         else None)"

definition apply_opening :: "script_opening \<Rightarrow> settings \<Rightarrow> settings" where
  "apply_opening opening b =
     (let b1 =
        (if opening_pitch_trajectory opening = Some ''rising''
         then (let b' = b(''style'' \<mapsto> min 0.9 (dict_get b ''style'' 0.55 + 0.1))
               in b'(''stability'' \<mapsto> max 0.1 (dict_get b' ''stability'' 0.35 - 0.05)))
         else if opening_pitch_trajectory opening = Some ''falling''
         then b(''style'' \<mapsto> max 0.1 (dict_get b ''style'' 0.55 - 0.05))
         else b)
      in if opt_get (opening_start_pitch_hz opening) 0 > 180
         then b1(''style'' \<mapsto> min 0.9 (dict_get b1 ''style'' 0.55 + 0.05))
         else b1)"

definition apply_closing :: "script_closing \<Rightarrow> settings \<Rightarrow> settings" where
  "apply_closing closing b =
     (let b1 =
        (if closing_pitch_trajectory closing = Some ''falling''
         then (let b' = b(''style'' \<mapsto> max 0.1 (dict_get b ''style'' 0.55 - 0.1))
               in b'(''stability'' \<mapsto> min 0.9 (dict_get b' ''stability'' 0.35 + 0.05)))
         else b)
      in if opt_get (closing_end_pitch_hz closing) 0 < 170
         then b1(''style'' \<mapsto> max 0.1 (dict_get b1 ''style'' 0.55 - 0.05))
         else b1)"

definition apply_dialogue_pitch :: "dialogue_pitch_cfg \<Rightarrow> settings \<Rightarrow> settings" where
  "apply_dialogue_pitch dialogue_pitch b =
     (let trajectory = opt_get (cfg_trajectory dialogue_pitch) ''stable'';
          b1 =
            (if trajectory = ''falling''
             then b(''style'' \<mapsto> min 0.9 (dict_get b ''style'' 0.55 + 0.05))
             else if trajectory = ''rising''
             then b(''style'' \<mapsto> max 0.1 (dict_get b ''style'' 0.55 - 0.05))
             else b);
          start_pitch = opt_get (cfg_start_pitch_hz dialogue_pitch) 0;
          end_pitch = opt_get (cfg_end_pitch_hz dialogue_pitch) 0
      in if start_pitch > 0 \<and> end_pitch > 0
         then (let pitch_diff = start_pitch - end_pitch
               in if pitch_diff > 10
                  then b1(''style'' \<mapsto> max 0.1 (dict_get b1 ''style'' 0.55 - 0.03))
                  else if pitch_diff < - 10
                  then b1(''style'' \<mapsto> min 0.9 (dict_get b1 ''style'' 0.55 + 0.03))
                  else b1)
         else b1)"

definition apply_text_emotion :: "string option \<Rightarrow> settings \<Rightarrow> settings" where
  "apply_text_emotion emotion b =
     (if emotion = Some ''laughter''
      then b(''stability'' \<mapsto> 0.25, ''style'' \<mapsto> 0.75)
      else if emotion = Some ''excitement''
      then b(''stability'' \<mapsto> 0.35, ''style'' \<mapsto> 0.65)
      else b)"

definition apply_emotion_segment :: "nat \<Rightarrow> emotion_segment_cfg \<Rightarrow> settings \<Rightarrow> settings" where
  "apply_emotion_segment dialogue_index seg b =
     (if cfg_index seg = Some (int dialogue_index)
      then (let emotion_type = cfg_emotion_type seg;
                intensity = opt_get (cfg_intensity seg) 0.5
            in if emotion_type = Some ''laughter''
               then b(''stability'' \<mapsto> max 0.1 (0.3 - (intensity * 0.1)),
                      ''style'' \<mapsto> min 0.9 (0.7 + (intensity * 0.1)))
               else if emotion_type = Some ''excitement''
               then b(''stability'' \<mapsto> max 0.1 (0.4 - (intensity * 0.1)),
                      ''style'' \<mapsto> min 0.9 (0.6 + (intensity * 0.1)))
               else b)
      else b)"

definition clamp_settings :: "settings \<Rightarrow> settings" where
  \<comment> \<open>the three assignments under \<^verbatim>\<open># Ensure values are in valid range\<close>\<close>
  "clamp_settings b =
     (let b1 = b(''stability'' \<mapsto> max 0.1 (min 0.9 (dict_get b ''stability'' 0.35)));
          b2 = b1(''style'' \<mapsto> max 0.1 (min 0.9 (dict_get b1 ''style'' 0.55)))
      in b2(''similarity_boost'' \<mapsto> max 0.3 (min 0.9 (dict_get b2 ''similarity_boost'' 0.75))))"

definition get_dialogue_settings_version_b ::
  "nat \<Rightarrow> nat \<Rightarrow> string \<Rightarrow> analysis_config \<Rightarrow> settings" where
  "get_dialogue_settings_version_b dialogue_index total_dialogues text_v cfg =
     (let base_settings = opt_get (recommended_elevenlabs_settings cfg) DEFAULT_SETTINGS;
          b1 = (case cfg_script_opening cfg of
                  Some opening \<Rightarrow>
                    if dialogue_index = 0 then apply_opening opening base_settings
                    else base_settings
                | None \<Rightarrow> base_settings);
          b2 = (case cfg_script_closing cfg of
                  Some closing \<Rightarrow>
                    if int dialogue_index = int total_dialogues - 1
                    then apply_closing closing b1 else b1
                | None \<Rightarrow> b1);
          per_dialogue = cfg_per_dialogue cfg;
          b3 = (if dialogue_index < length per_dialogue
                then apply_dialogue_pitch (per_dialogue ! dialogue_index) b2
                else b2);
          b4 = apply_text_emotion (detect_emotion_in_text text_v) b3;
          b5 = fold (apply_emotion_segment dialogue_index) (cfg_emotion_segments cfg) b4
      in clamp_settings b5)"

text \<open>The documented bounds of the voice parameters, on a record and on a dictionary.\<close>

definition voice_settings_in_bounds :: "voice_settings \<Rightarrow> bool" where
  "voice_settings_in_bounds v =
     (0.1 \<le> stability v \<and> stability v \<le> 0.9
      \<and> 0.1 \<le> style v \<and> style v \<le> 0.9
      \<and> 0.3 \<le> similarity_boost v \<and> similarity_boost v \<le> 0.9)"

definition settings_in_bounds :: "settings \<Rightarrow> bool" where
  "settings_in_bounds b =
     ((case b ''stability'' of None \<Rightarrow> False | Some v \<Rightarrow> 0.1 \<le> v \<and> v \<le> 0.9)
      \<and> (case b ''style'' of None \<Rightarrow> False | Some v \<Rightarrow> 0.1 \<le> v \<and> v \<le> 0.9)
      \<and> (case b ''similarity_boost'' of None \<Rightarrow> False | Some v \<Rightarrow> 0.3 \<le> v \<and> v \<le> 0.9))"

definition fallback_settings :: voice_settings where
  \<comment> \<open>the record the handler of \<^verbatim>\<open>_map_to_elevenlabs_settings\<close> stores\<close>
  "fallback_settings =
     \<lparr> stability = 0.35, similarity_boost = 0.75, style = 0.55, use_speaker_boost = True,
       output_format = ''mp3_44100_128'', model_id = ''eleven_multilingual_v2'',
       pause_duration_seconds = 0.3 \<rparr>"

text \<open>
  The conditions under which only the start-to-end pitch difference moves the style of a
  dialogue: neither the opening rule nor the closing rule changes the settings, and no
  emotion segment of the audio analysis carries the dialogue's index with an emotion.
\<close>

definition no_boundary_adjustment :: "nat \<Rightarrow> nat \<Rightarrow> analysis_config \<Rightarrow> bool" where
  "no_boundary_adjustment dialogue_index total_dialogues cfg =
     ((dialogue_index \<noteq> 0
       \<or> (case cfg_script_opening cfg of
             None \<Rightarrow> True
           | Some opening \<Rightarrow>
               opening_pitch_trajectory opening \<noteq> Some ''rising''
               \<and> opening_pitch_trajectory opening \<noteq> Some ''falling''
               \<and> opt_get (opening_start_pitch_hz opening) 0 \<le> 180))
      \<and> (int dialogue_index \<noteq> int total_dialogues - 1
          \<or> (case cfg_script_closing cfg of
                None \<Rightarrow> True
              | Some closing \<Rightarrow>
                  closing_pitch_trajectory closing \<noteq> Some ''falling''
                  \<and> opt_get (closing_end_pitch_hz closing) 0 \<ge> 170)))"

definition no_audio_emotion :: "nat \<Rightarrow> analysis_config \<Rightarrow> bool" where
  "no_audio_emotion dialogue_index cfg =
     list_all (\<lambda>seg. cfg_index seg \<noteq> Some (int dialogue_index)
                 \<or> (cfg_emotion_type seg \<noteq> Some ''laughter''
                     \<and> cfg_emotion_type seg \<noteq> Some ''excitement''))
       (cfg_emotion_segments cfg)"

text \<open>
  A configuration of two dialogues with default settings, the first dropping from 220 Hz
  to 150 Hz with the given trajectory label.
\<close>

definition drop_config :: "string \<Rightarrow> analysis_config" where
  "drop_config traj =
     \<lparr> recommended_elevenlabs_settings = None,
       cfg_script_opening = None,
       cfg_script_closing = None,
       cfg_per_dialogue =
         [\<lparr> cfg_trajectory = Some traj, cfg_start_pitch_hz = Some 220,
             cfg_end_pitch_hz = Some 150 \<rparr>,
          \<lparr> cfg_trajectory = Some ''stable'', cfg_start_pitch_hz = Some 180,
             cfg_end_pitch_hz = Some 180 \<rparr>],
       cfg_emotion_segments = [] \<rparr>"

text \<open>
  An analysis whose measured features are far outside their usual range, and a
  configuration whose stored settings are outside the bounds.
\<close>

definition extreme_config :: analysis_config where
  "extreme_config =
     \<lparr> recommended_elevenlabs_settings =
         Some [''stability'' \<mapsto> 5, ''style'' \<mapsto> - 3, ''similarity_boost'' \<mapsto> 40],
       cfg_script_opening =
         Some \<lparr> opening_pitch_trajectory = Some ''rising'', opening_start_pitch_hz = Some 900 \<rparr>,
       cfg_script_closing =
         Some \<lparr> closing_pitch_trajectory = Some ''falling'', closing_end_pitch_hz = Some 20 \<rparr>,
       cfg_per_dialogue =
         [\<lparr> cfg_trajectory = Some ''falling'', cfg_start_pitch_hz = Some 2000,
             cfg_end_pitch_hz = Some 1 \<rparr>],
       cfg_emotion_segments =
         [\<lparr> cfg_index = Some 0, cfg_emotion_type = Some ''laughter'',
             cfg_intensity = Some 1000 \<rparr>] \<rparr>"

section \<open>Segments, emotions and dialogue pitch\<close>
















record dialogue_pitch =
  pd_index :: nat
  pd_start_pitch_hz :: real
  pd_end_pitch_hz :: real
  pd_trajectory :: string
  pd_pitch_range :: real
  pd_duration_seconds :: real

record dialogue_acc =
  start_pitches :: "real list"
  end_pitches :: "real list"
  trajectories :: "string list"
  per_dialogue :: "dialogue_pitch list"

















section \<open>Properties\<close>

subsection \<open>Rounding to a double\<close>

lemma round_half_even_error: "\<bar>of_int (round_half_even y) - y\<bar> \<le> 1 / 2"
proof -
  have "of_int \<lfloor>y\<rfloor> \<le> y" "y < of_int \<lfloor>y\<rfloor> + 1" by linarith+
  then show ?thesis
    by (auto simp: round_half_even_def Let_def abs_le_iff)
qed

lemma round_half_even_int: "round_half_even (of_int m) = m"
  by (simp add: round_half_even_def)

lemma round_double_eq:
  assumes "2 powr (of_int e) \<le> \<bar>x\<bar>" "\<bar>x\<bar> < 2 powr (of_int e + 1)"
  shows "round_double x = of_int (round_half_even (x / 2 powr (of_int e - 52))) * 2 powr (of_int e - 52)"
proof -
  from assms(1) have nz: "x \<noteq> 0" by (auto simp: powr_def)
  then have pos: "0 < \<bar>x\<bar>" by simp
  have "of_int e \<le> log 2 \<bar>x\<bar>"
    using assms(1) pos by (simp add: le_log_iff)
  moreover have "log 2 \<bar>x\<bar> < of_int e + 1"
    using assms(2) pos by (simp add: log_less_iff)
  ultimately have "\<lfloor>log 2 \<bar>x\<bar>\<rfloor> = e" by linarith
  with nz show ?thesis by (simp add: round_double_def Let_def)
qed

lemma round_double_error: "\<bar>round_double x - x\<bar> \<le> \<bar>x\<bar> / 2 ^ 53"
proof (cases "x = 0")
  case True
  then show ?thesis by (simp add: round_double_def)
next
  case False
  define e where "e = \<lfloor>log 2 \<bar>x\<bar>\<rfloor>"
  define u :: real where "u = 2 powr (of_int e - 52)"
  have upos: "0 < u" by (simp add: u_def)
  have pos: "0 < \<bar>x\<bar>" using False by simp
  have "of_int e \<le> log 2 \<bar>x\<bar>" by (simp add: e_def)
  then have lo: "2 powr (of_int e) \<le> \<bar>x\<bar>"
    using pos by (simp add: le_log_iff)
  have fl: "round_double x = of_int (round_half_even (x / u)) * u"
    using False by (simp add: round_double_def Let_def e_def u_def)
  have "round_double x - x = (of_int (round_half_even (x / u)) - x / u) * u"
    using upos by (simp add: fl field_simps)
  then have "\<bar>round_double x - x\<bar> = \<bar>of_int (round_half_even (x / u)) - x / u\<bar> * \<bar>u\<bar>"
    by (simp only: abs_mult)
  also have "\<dots> = \<bar>of_int (round_half_even (x / u)) - x / u\<bar> * u"
    using upos by simp
  finally have "\<bar>round_double x - x\<bar> = \<bar>of_int (round_half_even (x / u)) - x / u\<bar> * u" .
  also have "\<dots> \<le> 1 / 2 * u"
    using round_half_even_error [of "x / u"] upos by (intro mult_right_mono) simp_all
  also have "1 / 2 * u = 2 powr (of_int e) / 2 ^ 53"
    by (simp add: u_def powr_diff)
  also have "\<dots> \<le> \<bar>x\<bar> / 2 ^ 53"
    using lo by (simp add: divide_right_mono)
  finally show ?thesis .
qed

lemma round_double_int:
  assumes "\<bar>m\<bar> < 2 ^ 53"
  shows "round_double (of_int m) = of_int m"
proof (cases "m = 0")
  case True
  then show ?thesis by (simp add: round_double_def)
next
  case False
  define x where "x = (of_int m :: real)"
  define e where "e = \<lfloor>log 2 \<bar>x\<bar>\<rfloor>"
  have pos: "0 < \<bar>x\<bar>" using False by (simp add: x_def)
  have "\<bar>x\<bar> < 2 ^ 53"
    using assms unfolding x_def by (metis of_int_abs of_int_less_numeral_power_cancel_iff)
  then have "log 2 \<bar>x\<bar> < 53"
    using pos by (simp add: log_less_iff)
  then have e52: "e \<le> 52" unfolding e_def by linarith
  define k where "k = nat (52 - e)"
  have u: "(2::real) powr (of_int e - 52) = 1 / 2 ^ k"
  proof -
    have "of_int e - 52 = - real k" using e52 by (simp add: k_def)
    then show ?thesis by (simp add: powr_minus powr_realpow inverse_eq_divide)
  qed
  have "real_of_int m * 2 ^ k = of_int (m * 2 ^ k)" by simp
  then have r: "round_half_even (real_of_int m * 2 ^ k) = m * 2 ^ k"
    by (simp only: round_half_even_int)
  have "round_double x = of_int (round_half_even (x / (1 / 2 ^ k))) * (1 / 2 ^ k)"
    using pos by (simp add: round_double_def Let_def e_def [symmetric] u)
  also have "\<dots> = x" by (simp add: r x_def)
  finally show ?thesis by (simp add: x_def)
qed

lemma round_double_numeral:
  "numeral n < (2::int) ^ 53 \<Longrightarrow> round_double (numeral n) = numeral n"
  using round_double_int [of "numeral n"] by simp

lemma round_double_neg_numeral:
  "numeral n < (2::int) ^ 53 \<Longrightarrow> round_double (- numeral n) = - numeral n"
  using round_double_int [of "- numeral n"] by simp

lemma round_double_zero_one: "round_double 0 = 0" "round_double 1 = 1"
  using round_double_int [of 0] round_double_int [of 1] by simp_all

lemma round_double_ge1:
  assumes "2 ^ j \<le> \<bar>x\<bar>" "\<bar>x\<bar> < 2 ^ (j + 1)" "j \<le> 52"
  shows "round_double x = of_int (round_half_even (x * 2 ^ (52 - j))) / 2 ^ (52 - j)"
proof -
  have p: "(2::real) powr (of_int (int j)) = 2 ^ j"
    by (simp add: powr_realpow)
  have q: "(2::real) powr (of_int (int j) + 1) = 2 ^ (j + 1)"
    by (simp add: powr_add powr_realpow)
  have "of_int (int j) - (52::real) = - real (52 - j)" using assms(3) by simp
  then have u: "(2::real) powr (of_int (int j) - 52) = 1 / 2 ^ (52 - j)"
    by (simp only: powr_minus powr_realpow zero_less_numeral inverse_eq_divide)
  have "round_double x = of_int (round_half_even (x / 2 powr (of_int (int j) - 52)))
          * 2 powr (of_int (int j) - 52)"
    by (rule round_double_eq) (simp_all only: p q assms)
  then show ?thesis by (simp only: u) simp
qed

lemma round_double_lt1:
  assumes "1 \<le> \<bar>x\<bar> * 2 ^ j" "\<bar>x\<bar> * 2 ^ j < 2"
  shows "round_double x = of_int (round_half_even (x * 2 ^ (52 + j))) / 2 ^ (52 + j)"
proof -
  have p: "(2::real) powr (of_int (- int j)) = 1 / 2 ^ j"
    by (simp add: powr_minus powr_realpow inverse_eq_divide)
  have "(2::real) powr (1 - real j) = 2 powr 1 / 2 powr (real j)"
    by (rule powr_diff)
  then have q: "(2::real) powr (of_int (- int j) + 1) = 2 / 2 ^ j"
    by (simp add: powr_realpow)
  have "of_int (- int j) - (52::real) = - real (52 + j)" by simp
  then have u: "(2::real) powr (of_int (- int j) - 52) = 1 / 2 ^ (52 + j)"
    by (simp only: powr_minus powr_realpow zero_less_numeral inverse_eq_divide)
  have "1 / 2 ^ j \<le> \<bar>x\<bar>"
    using assms(1) by (simp add: field_simps)
  then have lo: "2 powr (of_int (- int j)) \<le> \<bar>x\<bar>"
    by (simp only: p)
  have "\<bar>x\<bar> < 2 / 2 ^ j"
    using assms(2) by (simp add: field_simps)
  then have hi: "\<bar>x\<bar> < 2 powr (of_int (- int j) + 1)"
    by (simp only: q)
  have "round_double x = of_int (round_half_even (x / 2 powr (of_int (- int j) - 52)))
          * 2 powr (of_int (- int j) - 52)"
    by (rule round_double_eq) (rule lo, rule hi)
  then show ?thesis by (simp only: u) simp
qed

lemma tenth_value: "tenth = 7205759403792794 / 2 ^ 56"
proof -
  have "round_double (1 / 10) = of_int (round_half_even (1 / 10 * 2 ^ (52 + 4))) / 2 ^ (52 + 4)"
    by (rule round_double_lt1) simp_all
  also have "round_half_even (1 / 10 * 2 ^ (52 + 4)) = 7205759403792794"
    by (simp add: round_half_even_def Let_def)
  finally show ?thesis by (simp add: tenth_def)
qed

lemma tenth_bounds: "1 / 10 < tenth" "tenth < 1001 / 10000"
  by (simp_all add: tenth_value)

subsection \<open>Pitch trajectory\<close>

lemma double_ops:
  "fadd double_arith a b = round_double (a + b)"
  "fsub double_arith a b = round_double (a - b)"
  "fdiv double_arith a b = round_double (a / b)"
  "fsum double_arith xs = double_sum xs"
  "fmean double_arith xs = round_double (double_sum xs / real (length xs))"
  by (simp_all add: double_arith_def)

lemma double_mean_1: "numeral n < (2::int) ^ 53 \<Longrightarrow> fmean double_arith [numeral n] = numeral n"
  by (simp add: double_arith_def double_sum_def round_double_numeral)

lemma last_third_drop: "rev (take (length xs div 3) (rev xs)) = drop (length xs - length xs div 3) xs"
  by (simp add: take_rev)

lemma trajectory_unfold:
  "determine_pitch_trajectory A xs =
     (if length xs < 3 \<or> first_third_mean A xs = 0 \<or> last_third_mean A xs = 0 then ''stable''
      else if relative_change A xs > tenth then ''rising''
      else if relative_change A xs < - tenth then ''falling''
      else ''stable'')"
proof (cases "length xs < 3")
  case True
  then show ?thesis by (simp add: determine_pitch_trajectory_def)
next
  case False
  then have "0 < length xs div 3" by simp
  then show ?thesis
    using False
    by (simp add: determine_pitch_trajectory_def Let_def first_third_mean_def
        last_third_mean_def last_third_drop relative_change_def)
qed

lemma double_thirds_3:
  "first_third_mean double_arith [a, b, c] = fmean double_arith [a]"
  "last_third_mean double_arith [a, b, c] = fmean double_arith [c]"
  by (simp_all add: first_third_mean_def last_third_mean_def)


text \<open>
  The contour 180, 180, 190, 200, 200, 200, 165, 165, 165: its first third has the mean
  550/3, which is not a double, and its last third the mean 165. The computed change
  is the double just below the literal \<^verbatim>\<open>-0.1\<close>, although the exact quotient is
  one tenth below zero: the label is falling.
\<close>

lemma v19_first: "first_third_mean double_arith [180, 180, 190, 200, 200, 200, 165, 165, 165]
    = 6450468216285867 / 2 ^ 45"
proof -
  have "round_double (550 / 3) = of_int (round_half_even (550 / 3 * 2 ^ (52 - 7))) / 2 ^ (52 - 7)"
    by (rule round_double_ge1) simp_all
  also have "round_half_even (550 / 3 * 2 ^ (52 - 7)) = 6450468216285867"
    by (simp add: round_half_even_def Let_def)
  finally have "round_double (550 / 3) = 6450468216285867 / 2 ^ 45" by simp
  then show ?thesis
    by (simp add: first_third_mean_def double_arith_def double_sum_def round_double_numeral)
qed

lemma v19_last: "last_third_mean double_arith [180, 180, 190, 200, 200, 200, 165, 165, 165] = 165"
  by (simp add: last_third_mean_def double_arith_def double_sum_def round_double_numeral)

lemma v19_diff: "fsub double_arith 165 (6450468216285867 / 2 ^ 45) = - (645046821628587 / 2 ^ 45)"
proof -
  have "round_double (- (645046821628587 / 2 ^ 45))
      = of_int (round_half_even (- (645046821628587 / 2 ^ 45) * 2 ^ (52 - 4))) / 2 ^ (52 - 4)"
    by (rule round_double_ge1) simp_all
  also have "round_half_even (- (645046821628587 / 2 ^ 45) * 2 ^ (52 - 4)) = - 5160374573028696"
    by (simp add: round_half_even_def Let_def)
  finally have "round_double (- (645046821628587 / 2 ^ 45)) = - (645046821628587 / 2 ^ 45)"
    by simp
  moreover have "165 - 6450468216285867 / 2 ^ 45 = - (645046821628587 / 2 ^ 45 :: real)"
    by simp
  ultimately show ?thesis
    by (simp only: double_arith_def arith.simps)
qed

lemma v19_quot: "fdiv double_arith (- (645046821628587 / 2 ^ 45)) (6450468216285867 / 2 ^ 45)
    = - (7205759403792797 / 2 ^ 56)"
proof -
  have q: "- (645046821628587 / 2 ^ 45) / (6450468216285867 / 2 ^ 45)
      = - (645046821628587 / 6450468216285867 :: real)"
    by simp
  have "round_double (- (645046821628587 / 6450468216285867))
      = of_int (round_half_even (- (645046821628587 / 6450468216285867) * 2 ^ (52 + 4)))
          / 2 ^ (52 + 4)"
    by (rule round_double_lt1) simp_all
  also have "round_half_even (- (645046821628587 / 6450468216285867) * 2 ^ (52 + 4))
      = - 7205759403792797"
    by (simp add: round_half_even_def Let_def)
  finally have "round_double (- (645046821628587 / 6450468216285867))
      = - (7205759403792797 / 2 ^ 56)"
    by simp
  then show ?thesis
    by (simp only: double_arith_def arith.simps q)
qed

lemma v19_change:
  "relative_change double_arith [180, 180, 190, 200, 200, 200, 165, 165, 165]
     = - (7205759403792797 / 2 ^ 56)"
  by (simp only: relative_change_def v19_first v19_last v19_diff v19_quot)


lemma threshold_rounding_example:
  "determine_pitch_trajectory double_arith [180, 180, 190, 200, 200, 200, 165, 165, 165]
     = ''falling''
   \<and> (np_mean [165, 165, 165] - np_mean [180, 180, 190]) / np_mean [180, 180, 190] = - (1 / 10)
   \<and> \<not> (- (1 / 10) < - (0.10 :: real))"
proof -
  have "determine_pitch_trajectory double_arith [180, 180, 190, 200, 200, 200, 165, 165, 165]
     = ''falling''"
    by (simp add: trajectory_unfold v19_first v19_last v19_change tenth_value)
  moreover have "(np_mean [165, 165, 165] - np_mean [180, 180, 190]) / np_mean [180, 180, 190]
      = - (1 / 10)"
    by (simp add: np_mean_def)
  ultimately show ?thesis by simp
qed

lemma round_double_half: "round_double (- (1 / 2)) = - (1 / 2)"
proof -
  have "round_double (- (1 / 2))
      = of_int (round_half_even (- (1 / 2) * 2 ^ (52 + 1))) / 2 ^ (52 + 1)"
    by (rule round_double_lt1) simp_all
  also have "round_half_even (- (1 / 2) * 2 ^ (52 + 1)) = - 4503599627370496"
    by (simp add: round_half_even_def Let_def)
  finally show ?thesis by simp
qed

lemma rising_change: "relative_change double_arith [100, 150, 200] = 1"
  by (simp add: relative_change_def double_thirds_3 double_ops double_sum_def
      round_double_numeral round_double_zero_one)

lemma falling_change: "relative_change double_arith [200, 150, 100] = - (1 / 2)"
  by (simp add: relative_change_def double_thirds_3 double_ops double_sum_def
      round_double_numeral round_double_neg_numeral round_double_half)

lemma level_change: "relative_change double_arith [200, 200, 200] = 0"
  by (simp add: relative_change_def double_thirds_3 double_ops double_sum_def
      round_double_numeral round_double_zero_one)

lemma zero_first: "first_third_mean double_arith [0, 150, 200] = 0"
  by (simp add: double_thirds_3 double_ops double_sum_def round_double_zero_one)


text \<open>
  C3: in every arithmetic, a contour with fewer than 3 samples, or whose first-third
  mean or last-third mean (thirds by integer division) is zero, is labelled stable.
  Otherwise, with the change computed as the difference of the last-third mean and the
  first-third mean divided by the first-third mean, the label is rising when the change
  is above the float 0.1, falling when it is below the negated float 0.1, and stable
  otherwise. The means, the difference, the quotient and the threshold are the floats
  the program computes.
\<close>

theorem trajectory_classification:
  "(length xs < 3 \<or> first_third_mean A xs = 0 \<or> last_third_mean A xs = 0
      \<longrightarrow> determine_pitch_trajectory A xs = ''stable'')
   \<and> (\<not> (length xs < 3 \<or> first_third_mean A xs = 0 \<or> last_third_mean A xs = 0)
      \<longrightarrow> (relative_change A xs > tenth \<longrightarrow> determine_pitch_trajectory A xs = ''rising'')
        \<and> (relative_change A xs < - tenth \<longrightarrow> determine_pitch_trajectory A xs = ''falling'')
        \<and> (\<not> relative_change A xs > tenth \<and> \<not> relative_change A xs < - tenth
             \<longrightarrow> determine_pitch_trajectory A xs = ''stable''))"
  using tenth_bounds(1) by (simp add: trajectory_unfold)


theorem trajectory_classification_witness:
  "determine_pitch_trajectory double_arith [200, 210] = ''stable''
   \<and> first_third_mean double_arith [0, 150, 200] = 0
   \<and> determine_pitch_trajectory double_arith [0, 150, 200] = ''stable''
   \<and> relative_change double_arith [100, 150, 200] > tenth
   \<and> determine_pitch_trajectory double_arith [100, 150, 200] = ''rising''
   \<and> relative_change double_arith [180, 180, 190, 200, 200, 200, 165, 165, 165] < - tenth
   \<and> determine_pitch_trajectory double_arith [180, 180, 190, 200, 200, 200, 165, 165, 165]
       = ''falling''
   \<and> \<not> relative_change double_arith [200, 200, 200] > tenth
   \<and> \<not> relative_change double_arith [200, 200, 200] < - tenth
   \<and> determine_pitch_trajectory double_arith [200, 200, 200] = ''stable''"
proof -
  have short: "length [200, 210 :: real] < 3" by simp
  have r: "\<not> (length [100, 150, 200 :: real] < 3
      \<or> first_third_mean double_arith [100, 150, 200] = 0
      \<or> last_third_mean double_arith [100, 150, 200] = 0)"
    by (simp add: double_thirds_3 double_mean_1)
  have rc: "relative_change double_arith [100, 150, 200] > tenth"
    using tenth_bounds(2) by (simp add: rising_change)
  have f: "\<not> (length [180, 180, 190, 200, 200, 200, 165, 165, 165 :: real] < 3
      \<or> first_third_mean double_arith [180, 180, 190, 200, 200, 200, 165, 165, 165] = 0
      \<or> last_third_mean double_arith [180, 180, 190, 200, 200, 200, 165, 165, 165] = 0)"
    by (simp add: v19_first v19_last)
  have fc: "relative_change double_arith [180, 180, 190, 200, 200, 200, 165, 165, 165]
      < - tenth"
    by (simp add: v19_change tenth_value)
  have l: "\<not> (length [200, 200, 200 :: real] < 3
      \<or> first_third_mean double_arith [200, 200, 200] = 0
      \<or> last_third_mean double_arith [200, 200, 200] = 0)"
    by (simp add: double_thirds_3 double_mean_1)
  have lc: "\<not> relative_change double_arith [200, 200, 200] > tenth"
      "\<not> relative_change double_arith [200, 200, 200] < - tenth"
    using tenth_bounds(1) by (simp_all add: level_change)
  from trajectory_classification [of "[200, 210]" double_arith] short
  have "determine_pitch_trajectory double_arith [200, 210] = ''stable''" by blast
  moreover from trajectory_classification [of "[0, 150, 200]" double_arith] zero_first
  have "determine_pitch_trajectory double_arith [0, 150, 200] = ''stable''" by blast
  moreover from trajectory_classification [of "[100, 150, 200]" double_arith] r rc
  have "determine_pitch_trajectory double_arith [100, 150, 200] = ''rising''" by blast
  moreover from trajectory_classification
    [of "[180, 180, 190, 200, 200, 200, 165, 165, 165]" double_arith] f fc
  have "determine_pitch_trajectory double_arith
      [180, 180, 190, 200, 200, 200, 165, 165, 165] = ''falling''" by blast
  moreover from trajectory_classification [of "[200, 200, 200]" double_arith] l lc
  have "determine_pitch_trajectory double_arith [200, 200, 200] = ''stable''" by blast
  ultimately show ?thesis using zero_first rc fc lc by blast
qed


lemma rel_close_div:
  assumes "0 < b" "rel_close r c (d / b)"
  shows "\<bar>c * b - d\<bar> \<le> r * \<bar>d\<bar>"
proof -
  have "c * b - d = (c - d / b) * b" using assms(1) by (simp add: field_simps)
  then have "\<bar>c * b - d\<bar> = \<bar>c - d / b\<bar> * b"
    using assms(1) by (simp add: abs_mult)
  also have "\<dots> \<le> (r * \<bar>d / b\<bar>) * b"
    using assms by (intro mult_right_mono) (simp_all add: rel_close_def)
  also have "\<dots> = r * \<bar>d\<bar>" using assms(1) by simp
  finally show ?thesis .
qed

lemma reversal_forward:
  fixes s e sh eh d p :: real
  assumes "0 < s" "0 < e"
    and sh: "\<bar>sh - s\<bar> \<le> s / 1000" and eh: "\<bar>eh - e\<bar> \<le> e / 1000"
    and d: "\<bar>d - (eh - sh)\<bar> \<le> \<bar>eh - sh\<bar> / 1000" and p: "\<bar>p - d\<bar> \<le> \<bar>d\<bar> / 1000"
    and fall: "p < - (sh / 10)"
  shows "1000 * e \<le> 903 * s"
proof -
  have shp: "0 < sh" using sh assms(1) by linarith
  have dneg: "d < 0"
  proof (rule ccontr)
    assume "\<not> d < 0"
    then have "0 \<le> p" using p by linarith
    with fall shp show False by linarith
  qed
  have d1: "1001 * d < - (100 * sh)" using p dneg fall by linarith
  have gneg: "eh - sh < 0"
  proof (rule ccontr)
    assume "\<not> eh - sh < 0"
    then have "\<bar>eh - sh\<bar> = eh - sh" by simp
    with d have "\<bar>d - (eh - sh)\<bar> \<le> eh / 1000 - sh / 1000" by (simp add: diff_divide_distrib)
    then have "0 \<le> d" using \<open>\<not> eh - sh < 0\<close> by linarith
    with dneg show False by linarith
  qed
  have "\<bar>eh - sh\<bar> = - (eh - sh)" using gneg by simp
  with d have "\<bar>d - (eh - sh)\<bar> \<le> sh / 1000 - eh / 1000" by (simp add: diff_divide_distrib)
  then have "1001 * eh - 1001 * sh \<le> 1000 * d" by linarith
  with d1 have "1002001 * eh - 1002001 * sh < - (100000 * sh)" by linarith
  then have e1: "1002001 * eh < 902001 * sh" by linarith
  have "999 * e \<le> 1000 * eh" using eh assms(2) by linarith
  moreover have "1000 * sh \<le> 1001 * s" using sh assms(1) by linarith
  ultimately show ?thesis using e1 assms(1,2) by linarith
qed

lemma reversal_backward:
  fixes s e sh' eh' d' p' :: real
  assumes "0 < s" "0 < e"
    and sh: "\<bar>sh' - s\<bar> \<le> s / 1000" and eh: "\<bar>eh' - e\<bar> \<le> e / 1000"
    and d: "\<bar>d' - (sh' - eh')\<bar> \<le> \<bar>sh' - eh'\<bar> / 1000" and p: "\<bar>p' - d'\<bar> \<le> \<bar>d'\<bar> / 1000"
    and ratio: "1000 * e \<le> 903 * s"
  shows "p' > 1001 / 10000 * eh'"
proof -
  have g: "0 < sh' - eh'" using sh eh ratio assms(1,2) by linarith
  then have "\<bar>sh' - eh'\<bar> = sh' - eh'" by simp
  with d have "\<bar>d' - (sh' - eh')\<bar> \<le> sh' / 1000 - eh' / 1000" by (simp add: diff_divide_distrib)
  then have d1: "999 * sh' - 999 * eh' \<le> 1000 * d'" by linarith
  then have dpos: "0 < d'" using g by linarith
  then have "999 * d' \<le> 1000 * p'" using p by linarith
  with d1 have "998001 * sh' - 998001 * eh' \<le> 1000000 * p'" by linarith
  moreover have "999 * s \<le> 1000 * sh'" using sh assms(1) by linarith
  moreover have "1000 * eh' \<le> 1001 * e" using eh assms(2) by linarith
  ultimately show ?thesis using ratio assms(1,2) by linarith
qed

lemma reversal_never_rising:
  fixes s e sh eh sh' eh' d p d' p' :: real
  assumes "0 < s" "0 < e"
    and sh: "\<bar>sh - s\<bar> \<le> s / 1000" and eh: "\<bar>eh - e\<bar> \<le> e / 1000"
    and sh': "\<bar>sh' - s\<bar> \<le> s / 1000" and eh': "\<bar>eh' - e\<bar> \<le> e / 1000"
    and d: "\<bar>d - (eh - sh)\<bar> \<le> \<bar>eh - sh\<bar> / 1000" and p: "\<bar>p - d\<bar> \<le> \<bar>d\<bar> / 1000"
    and d': "\<bar>d' - (sh' - eh')\<bar> \<le> \<bar>sh' - eh'\<bar> / 1000" and p': "\<bar>p' - d'\<bar> \<le> \<bar>d'\<bar> / 1000"
    and rise: "p > sh / 10"
  shows "p' \<le> 0"
proof -
  have shp: "0 < sh" using sh assms(1) by linarith
  have dpos: "0 < d"
  proof (rule ccontr)
    assume "\<not> 0 < d"
    then have "p \<le> 0" using p by linarith
    with rise shp show False by linarith
  qed
  have d1: "100 * sh < 1001 * d" using p dpos rise by linarith
  have gpos: "0 < eh - sh"
  proof (rule ccontr)
    assume "\<not> 0 < eh - sh"
    then have "\<bar>eh - sh\<bar> = - (eh - sh)" by simp
    with d have "\<bar>d - (eh - sh)\<bar> \<le> sh / 1000 - eh / 1000" by (simp add: diff_divide_distrib)
    then have "d \<le> 0" using \<open>\<not> 0 < eh - sh\<close> by linarith
    with dpos show False by linarith
  qed
  have "\<bar>eh - sh\<bar> = eh - sh" using gpos by simp
  with d have "\<bar>d - (eh - sh)\<bar> \<le> eh / 1000 - sh / 1000" by (simp add: diff_divide_distrib)
  then have "1000 * d \<le> 1001 * eh - 1001 * sh" by linarith
  with d1 have "100000 * sh < 1002001 * eh - 1002001 * sh" by linarith
  then have e1: "1102001 * sh < 1002001 * eh" by linarith
  have "1000 * eh \<le> 1001 * e" using eh assms(2) by linarith
  moreover have "999 * s \<le> 1000 * sh" using sh assms(1) by linarith
  ultimately have se: "109 * s \<le> 100 * e" using e1 assms(1,2) by linarith
  have g': "sh' - eh' < 0" using sh' eh' se assms(1,2) by linarith
  then have "\<bar>sh' - eh'\<bar> = - (sh' - eh')" by simp
  with d' have "\<bar>d' - (sh' - eh')\<bar> \<le> eh' / 1000 - sh' / 1000" by (simp add: diff_divide_distrib)
  then have "d' \<le> 0" using g' by linarith
  then show ?thesis using p' by linarith
qed

lemma np_mean_rev: "np_mean (rev xs) = np_mean xs"
  by (simp add: np_mean_def sum_list_rev)

lemma np_mean_pos:
  assumes "xs \<noteq> []" "\<forall>x\<in>set xs. 0 < x"
  shows "0 < np_mean xs"
proof -
  have "0 < sum_list xs"
    using assms by (induction xs) (auto intro: add_pos_nonneg sum_list_nonneg less_imp_le)
  then show ?thesis using assms(1) by (simp add: np_mean_def)
qed

lemma rel_close_pos:
  assumes "rel_close (1 / 1000) c x" "0 < x"
  shows "\<bar>c - x\<bar> \<le> x / 1000" "0 < c"
proof -
  show "\<bar>c - x\<bar> \<le> x / 1000" using assms by (simp add: rel_close_def)
  then show "0 < c" using assms(2) by linarith
qed

lemma rel_close_thousandth:
  "rel_close (1 / 1000) c x \<Longrightarrow> \<bar>c - x\<bar> \<le> \<bar>x\<bar> / 1000"
  by (simp add: rel_close_def)

lemma label_falling:
  "determine_pitch_trajectory A xs = ''falling''
     \<Longrightarrow> 3 \<le> length xs \<and> relative_change A xs < - tenth"
  by (simp add: trajectory_unfold split: if_splits)

lemma label_rising:
  "determine_pitch_trajectory A xs = ''rising''
     \<Longrightarrow> 3 \<le> length xs \<and> relative_change A xs > tenth"
  by (simp add: trajectory_unfold split: if_splits)

lemma flat_contour_stable:
  assumes sub: "\<forall>a b. rel_close (1 / 1000) (fsub A a b) (a - b)"
    and quot: "\<forall>a b. b \<noteq> 0 \<longrightarrow> rel_close (1 / 1000) (fdiv A a b) (a / b)"
  shows "determine_pitch_trajectory A (replicate n c) = ''stable''"
proof (cases "n < 3 \<or> fmean A (replicate (n div 3) c) = 0")
  case True
  then show ?thesis
    by (auto simp add: trajectory_unfold first_third_mean_def last_third_mean_def)
next
  case False
  define m where "m = fmean A (replicate (n div 3) c)"
  have m: "m \<noteq> 0" using False by (simp add: m_def)
  have f: "first_third_mean A (replicate n c) = m"
    by (simp add: first_third_mean_def m_def min_def)
  have l: "last_third_mean A (replicate n c) = m"
    by (simp add: last_third_mean_def m_def min_def)
  have "rel_close (1 / 1000) (fsub A m m) (m - m)" using sub by blast
  then have d: "fsub A m m = 0" by (simp add: rel_close_def)
  have "rel_close (1 / 1000) (fdiv A 0 m) (0 / m)" using quot m by blast
  then have "fdiv A 0 m = 0" by (simp add: rel_close_def)
  then have "relative_change A (replicate n c) = 0"
    by (simp add: relative_change_def f l d)
  then show ?thesis
    using tenth_bounds(1) by (simp add: trajectory_unfold)
qed

lemma slope_forward: "fdiv double_arith 105 1000 = 7566047373982433 / 2 ^ 56"
proof -
  have "round_double (105 / 1000)
      = of_int (round_half_even (105 / 1000 * 2 ^ (52 + 4))) / 2 ^ (52 + 4)"
    by (rule round_double_lt1) simp_all
  also have "round_half_even (105 / 1000 * 2 ^ (52 + 4)) = 7566047373982433"
    by (simp add: round_half_even_def Let_def)
  finally have "round_double (105 / 1000) = 7566047373982433 / 2 ^ 56" by simp
  then show ?thesis by (simp only: double_arith_def arith.simps)
qed

lemma slope_backward: "fdiv double_arith (- 105) 1105 = - (6847101695911704 / 2 ^ 56)"
proof -
  have "round_double (- 105 / 1105)
      = of_int (round_half_even (- 105 / 1105 * 2 ^ (52 + 4))) / 2 ^ (52 + 4)"
    by (rule round_double_lt1) simp_all
  also have "round_half_even (- 105 / 1105 * 2 ^ (52 + 4)) = - 6847101695911704"
    by (simp add: round_half_even_def Let_def)
  finally have "round_double (- 105 / 1105) = - (6847101695911704 / 2 ^ 56)" by simp
  then show ?thesis by (simp only: double_arith_def arith.simps)
qed

lemma slope_forward_change:
  "relative_change double_arith [1000, 1000, 1105] = 7566047373982433 / 2 ^ 56"
proof -
  have m: "fmean double_arith [1000] = 1000" "fmean double_arith [1105] = 1105"
    by (simp_all add: double_mean_1)
  have "fsub double_arith 1105 1000 = 105"
    by (simp add: double_ops round_double_numeral)
  then show ?thesis
    by (simp only: relative_change_def double_thirds_3 m slope_forward)
qed

lemma slope_backward_change:
  "relative_change double_arith [1105, 1000, 1000] = - (6847101695911704 / 2 ^ 56)"
proof -
  have m: "fmean double_arith [1000] = 1000" "fmean double_arith [1105] = 1105"
    by (simp_all add: double_mean_1)
  have "fsub double_arith 1000 1105 = - 105"
    by (simp add: double_ops round_double_neg_numeral)
  then show ?thesis
    by (simp only: relative_change_def double_thirds_3 m slope_backward)
qed


text \<open>
  C4 as stated fails: the change is measured relative to the first third, so a rise of
  10.5 percent read backwards is a fall of 9.5 percent. In double arithmetic the
  contour 1000, 1000, 1105 is rising and its reverse is stable, not falling.
\<close>

theorem trajectory_reversal_counterexample:
  "determine_pitch_trajectory double_arith [1000, 1000, 1105] = ''rising''
   \<and> determine_pitch_trajectory double_arith (rev [1000, 1000, 1105]) = ''stable''"
  by (simp add: trajectory_unfold double_thirds_3 double_mean_1 slope_forward_change
      slope_backward_change tenth_value)


text \<open>
  C4, amended: take a contour of positive pitch values and an arithmetic whose
  differences, quotients and means of the first and last third, of the contour and of
  its reverse, are within one part in a thousand of the exact values. Then reversing a
  contour labelled falling gives the label rising; reversing a contour labelled rising
  never gives rising; and every constant contour is labelled stable.
\<close>

theorem trajectory_reversal:
  assumes pos: "\<forall>x\<in>set xs. 0 < x"
    and sub: "\<forall>a b. rel_close (1 / 1000) (fsub A a b) (a - b)"
    and quot: "\<forall>a b. b \<noteq> 0 \<longrightarrow> rel_close (1 / 1000) (fdiv A a b) (a / b)"
    and fwd: "thirds_accurate A (1 / 1000) xs"
    and bwd: "thirds_accurate A (1 / 1000) (rev xs)"
  shows "(determine_pitch_trajectory A xs = ''falling''
            \<longrightarrow> determine_pitch_trajectory A (rev xs) = ''rising'')
       \<and> (determine_pitch_trajectory A xs = ''rising''
            \<longrightarrow> determine_pitch_trajectory A (rev xs) \<noteq> ''rising'')
       \<and> determine_pitch_trajectory A (replicate n c) = ''stable''"
proof -
  define k where "k = length xs div 3"
  define S where "S = take k xs"
  define E where "E = drop (length xs - k) xs"
  define sh where "sh = fmean A S"
  define eh where "eh = fmean A E"
  define sh' where "sh' = fmean A (rev S)"
  define eh' where "eh' = fmean A (rev E)"
  define d where "d = fsub A eh sh"
  define d' where "d' = fsub A sh' eh'"
  have kle: "k \<le> length xs" by (simp add: k_def)
  have first: "first_third_mean A xs = sh"
    by (simp add: first_third_mean_def sh_def S_def k_def)
  have last: "last_third_mean A xs = eh"
    by (simp add: last_third_mean_def last_third_drop eh_def E_def k_def)
  have tr: "take k (rev xs) = rev E"
    by (simp add: E_def take_rev)
  have dr: "drop (length xs - k) (rev xs) = rev S"
    using kle by (simp add: S_def drop_rev)
  have first': "first_third_mean A (rev xs) = eh'"
    using tr by (simp add: first_third_mean_def eh'_def k_def del: take_rev)
  have last': "last_third_mean A (rev xs) = sh'"
    by (simp add: last_third_mean_def sh'_def S_def k_def)
  have change: "relative_change A xs = fdiv A d sh"
    by (simp add: relative_change_def first last d_def)
  have change': "relative_change A (rev xs) = fdiv A d' eh'"
    by (simp add: relative_change_def first' last' d'_def)
  have key: "(relative_change A xs < - tenth \<longrightarrow> relative_change A (rev xs) > tenth)
           \<and> (relative_change A xs > tenth \<longrightarrow> \<not> relative_change A (rev xs) > tenth)
           \<and> first_third_mean A (rev xs) \<noteq> 0 \<and> last_third_mean A (rev xs) \<noteq> 0"
    if long: "3 \<le> length xs"
  proof -
    have kpos: "0 < k" using long by (simp add: k_def)
    have Sne: "S \<noteq> []" using kpos long by (auto simp add: S_def)
    have Ene: "E \<noteq> []" using kpos long by (auto simp add: E_def)
    have "\<forall>x\<in>set S. 0 < x" using pos by (auto simp add: S_def dest: in_set_takeD)
    then have s: "0 < np_mean S" using Sne by (rule np_mean_pos [rotated])
    have "\<forall>x\<in>set E. 0 < x" using pos by (auto simp add: E_def dest: in_set_dropD)
    then have e: "0 < np_mean E" using Ene by (rule np_mean_pos [rotated])
    have a1: "rel_close (1 / 1000) sh (np_mean S)"
      using fwd by (simp add: thirds_accurate_def sh_def S_def k_def)
    have a2: "rel_close (1 / 1000) eh (np_mean E)"
      using fwd by (simp add: thirds_accurate_def eh_def E_def k_def)
    have a3: "rel_close (1 / 1000) sh' (np_mean S)"
      using bwd dr by (simp add: thirds_accurate_def sh'_def k_def np_mean_rev)
    have a4: "rel_close (1 / 1000) eh' (np_mean E)"
      using bwd tr by (simp add: thirds_accurate_def eh'_def k_def np_mean_rev)
    note b1 = rel_close_pos [OF a1 s] and b2 = rel_close_pos [OF a2 e]
      and b3 = rel_close_pos [OF a3 s] and b4 = rel_close_pos [OF a4 e]
    have "rel_close (1 / 1000) d (eh - sh)" using sub by (simp add: d_def)
    then have c1: "\<bar>d - (eh - sh)\<bar> \<le> \<bar>eh - sh\<bar> / 1000" by (rule rel_close_thousandth)
    have "rel_close (1 / 1000) d' (sh' - eh')" using sub by (simp add: d'_def)
    then have c2: "\<bar>d' - (sh' - eh')\<bar> \<le> \<bar>sh' - eh'\<bar> / 1000" by (rule rel_close_thousandth)
    define p where "p = fdiv A d sh * sh"
    define p' where "p' = fdiv A d' eh' * eh'"
    have "rel_close (1 / 1000) (fdiv A d sh) (d / sh)" using quot b1(2) by simp
    then have "\<bar>p - d\<bar> \<le> 1 / 1000 * \<bar>d\<bar>"
      unfolding p_def using b1(2) by (intro rel_close_div)
    then have c3: "\<bar>p - d\<bar> \<le> \<bar>d\<bar> / 1000" by simp
    have "rel_close (1 / 1000) (fdiv A d' eh') (d' / eh')" using quot b4(2) by simp
    then have "\<bar>p' - d'\<bar> \<le> 1 / 1000 * \<bar>d'\<bar>"
      unfolding p'_def using b4(2) by (intro rel_close_div)
    then have c4: "\<bar>p' - d'\<bar> \<le> \<bar>d'\<bar> / 1000" by simp
    have fall: "fdiv A d' eh' > tenth" if "fdiv A d sh < - tenth"
    proof -
      have "fdiv A d sh < - (1 / 10)" using that tenth_bounds(1) by linarith
      then have "fdiv A d sh * sh < - (1 / 10) * sh"
        using b1(2) by (rule mult_strict_right_mono)
      then have "p < - (sh / 10)" by (simp add: p_def)
      then have "1000 * np_mean E \<le> 903 * np_mean S"
        using reversal_forward [OF s e b1(1) b2(1) c1 c3] by simp
      then have "p' > 1001 / 10000 * eh'"
        using reversal_backward [OF s e b3(1) b4(1) c2 c4] by simp
      then have "1001 / 10000 * eh' < fdiv A d' eh' * eh'" by (simp add: p'_def)
      then have "1001 / 10000 < fdiv A d' eh'"
        using b4(2) by (simp only: mult_less_cancel_right_pos)
      then show ?thesis using tenth_bounds(2) by linarith
    qed
    have rise: "\<not> fdiv A d' eh' > tenth" if "fdiv A d sh > tenth"
    proof -
      have "1 / 10 < fdiv A d sh" using that tenth_bounds(1) by linarith
      then have "1 / 10 * sh < fdiv A d sh * sh"
        using b1(2) by (rule mult_strict_right_mono)
      then have "p > sh / 10" by (simp add: p_def)
      then have "p' \<le> 0"
        using reversal_never_rising [OF s e b1(1) b2(1) b3(1) b4(1) c1 c3 c2 c4] by simp
      then have "fdiv A d' eh' \<le> 0"
        using b4(2) by (simp add: p'_def mult_le_0_iff)
      then show ?thesis using tenth_bounds(1) by linarith
    qed
    show ?thesis
      using fall rise b3(2) b4(2) by (simp add: change change' first' last')
  qed
  have "determine_pitch_trajectory A (rev xs) = ''rising''"
    if "determine_pitch_trajectory A xs = ''falling''"
  proof -
    from label_falling [OF that] have long: "3 \<le> length xs"
      and c: "relative_change A xs < - tenth" by simp_all
    from key [OF long] c long show ?thesis by (simp add: trajectory_unfold)
  qed
  moreover have "determine_pitch_trajectory A (rev xs) \<noteq> ''rising''"
    if "determine_pitch_trajectory A xs = ''rising''"
  proof -
    from label_rising [OF that] have long: "3 \<le> length xs"
      and c: "relative_change A xs > tenth" by simp_all
    from key [OF long] c long show ?thesis by (simp add: trajectory_unfold)
  qed
  moreover have "determine_pitch_trajectory A (replicate n c) = ''stable''"
    using sub quot by (rule flat_contour_stable)
  ultimately show ?thesis by blast
qed


lemma round_double_close: "rel_close (1 / 1000) (round_double x) x"
proof -
  have "\<bar>round_double x - x\<bar> \<le> \<bar>x\<bar> / 2 ^ 53" by (rule round_double_error)
  also have "\<dots> \<le> \<bar>x\<bar> / 1000" by (intro divide_left_mono) simp_all
  finally show ?thesis by (simp add: rel_close_def)
qed

lemma double_sub_close: "\<forall>a b. rel_close (1 / 1000) (fsub double_arith a b) (a - b)"
  by (simp add: double_ops round_double_close)

lemma double_div_close:
  "\<forall>a b. b \<noteq> 0 \<longrightarrow> rel_close (1 / 1000) (fdiv double_arith a b) (a / b)"
  by (simp add: double_ops round_double_close)

lemma thirds_accurate_3:
  assumes "numeral a < (2::int) ^ 53" "numeral c < (2::int) ^ 53"
  shows "thirds_accurate double_arith (1 / 1000) [numeral a, b, numeral c]"
  using assms by (simp add: thirds_accurate_def double_mean_1 np_mean_def rel_close_def)

lemma falling_label: "determine_pitch_trajectory double_arith [200, 150, 100] = ''falling''"
  using tenth_bounds
  by (simp add: trajectory_unfold falling_change double_thirds_3 double_mean_1)

lemma rising_label: "determine_pitch_trajectory double_arith [100, 150, 200] = ''rising''"
  using tenth_bounds
  by (simp add: trajectory_unfold rising_change double_thirds_3 double_mean_1)


theorem trajectory_reversal_witness:
  "determine_pitch_trajectory double_arith [200, 150, 100] = ''falling''
   \<and> determine_pitch_trajectory double_arith (rev [200, 150, 100]) = ''rising''
   \<and> determine_pitch_trajectory double_arith [100, 150, 200] = ''rising''
   \<and> determine_pitch_trajectory double_arith (rev [100, 150, 200]) \<noteq> ''rising''
   \<and> determine_pitch_trajectory double_arith (replicate 6 120) = ''stable''"
proof -
  have p1: "\<forall>x\<in>set [200, 150, 100 :: real]. 0 < x" by simp
  have p2: "\<forall>x\<in>set [100, 150, 200 :: real]. 0 < x" by simp
  have t1: "thirds_accurate double_arith (1 / 1000) [200, 150, 100]"
    by (rule thirds_accurate_3) simp_all
  have t2: "thirds_accurate double_arith (1 / 1000) [100, 150, 200]"
    by (rule thirds_accurate_3) simp_all
  have t1': "thirds_accurate double_arith (1 / 1000) (rev [200, 150, 100])"
    using t2 by simp
  have t2': "thirds_accurate double_arith (1 / 1000) (rev [100, 150, 200])"
    using t1 by simp
  note down = trajectory_reversal [of "[200, 150, 100]" double_arith 6 120,
      OF p1 double_sub_close double_div_close t1 t1']
  note up = trajectory_reversal [of "[100, 150, 200]" double_arith 6 120,
      OF p2 double_sub_close double_div_close t2 t2']
  from down falling_label
  have "determine_pitch_trajectory double_arith (rev [200, 150, 100]) = ''rising''"
    by blast
  moreover from up rising_label
  have "determine_pitch_trajectory double_arith (rev [100, 150, 200]) \<noteq> ''rising''"
    by blast
  moreover from down
  have "determine_pitch_trajectory double_arith (replicate 6 120) = ''stable''"
    by blast
  ultimately show ?thesis using falling_label rising_label by blast
qed


subsection \<open>Timing\<close>

lemma pause_durations_short: "length onsets \<le> 1 \<Longrightarrow> pause_durations onsets = []"
  by (simp add: pause_durations_def)

lemma pauses_two: "pause_durations [a, b] = [b - a]"
  by (simp add: pause_durations_def)

lemma pauses_three: "pause_durations [a, b, c] = [b - a, c - b]"
  by (simp add: pause_durations_def upt_rec)

lemma std_pop_single: "std_pop [p] = 0"
  by (simp add: std_pop_def np_mean_def)

lemma std_pop_one_two: "std_pop [1, 2] = 1 / 2"
proof -
  have "std_pop [1, 2] = sqrt ((1 / 2)\<^sup>2)"
    by (simp add: std_pop_def np_mean_def power2_eq_square)
  then show ?thesis by (simp del: power_divide)
qed

text \<open>
  C7: with zero or one onset there is no inter-onset pause, and the pause statistics are
  the fallback constants: minimum 0.1 s, average 0.3 s, maximum 1.0 s.
\<close>

theorem timing_fallback_constants:
  "length onsets \<le> 1 \<Longrightarrow>
     min_pause_duration (analyze_timing_patterns onsets rms rms_threshold sr major_onsets) = 0.1
   \<and> average_pause_duration_seconds
         (analyze_timing_patterns onsets rms rms_threshold sr major_onsets) = 0.3
   \<and> max_pause_duration (analyze_timing_patterns onsets rms rms_threshold sr major_onsets) = 1.0"
  by (simp add: analyze_timing_patterns_def Let_def pause_durations_short)

theorem timing_fallback_constants_witness:
  "length [0.5::real] \<le> 1
   \<and> min_pause_duration (analyze_timing_patterns [0.5] [0.2, 0.01] 0.05 16000 []) = 0.1
   \<and> average_pause_duration_seconds (analyze_timing_patterns [0.5] [0.2, 0.01] 0.05 16000 []) = 0.3
   \<and> max_pause_duration (analyze_timing_patterns [0.5] [0.2, 0.01] 0.05 16000 []) = 1.0"
  using timing_fallback_constants [of "[0.5]" "[0.2, 0.01]" "0.05" 16000 "[]"]
  by simp

text \<open>
  C2 as stated fails: two onsets give one pause, fewer than two, and the regularity is
  1, not the default 0.5. (The standard deviation of a single pause is 0.)
\<close>

theorem single_pause_counterexample:
  "length (pause_durations [0, 1]) < 2
   \<and> speech_rhythm_regularity (analyze_timing_patterns [0, 1] [0.2, 0.01] 0.05 16000 []) = Some 1
   \<and> speech_rhythm_regularity (analyze_timing_patterns [0, 1] [0.2, 0.01] 0.05 16000 []) \<noteq> Some 0.5"
  by (simp add: analyze_timing_patterns_def Let_def pauses_two np_std_def std_pop_single np_mean_def)

text \<open>
  C2, amended: when there is at least one pause, the regularity is 1 minus the standard
  deviation of the pauses divided by their mean if that mean is positive (so it is 1
  with exactly one pause), and the default 0.5 if the mean is not positive.
\<close>

theorem pause_regularity:
  "pause_durations onsets \<noteq> [] \<Longrightarrow>
     (np_mean (pause_durations onsets) > 0 \<longrightarrow>
        speech_rhythm_regularity (analyze_timing_patterns onsets rms rms_threshold sr major_onsets)
          = Some (1 - std_pop (pause_durations onsets) / np_mean (pause_durations onsets)))
   \<and> (np_mean (pause_durations onsets) > 0 \<and> length (pause_durations onsets) = 1 \<longrightarrow>
        speech_rhythm_regularity (analyze_timing_patterns onsets rms rms_threshold sr major_onsets)
          = Some 1)
   \<and> (np_mean (pause_durations onsets) \<le> 0 \<longrightarrow>
        speech_rhythm_regularity (analyze_timing_patterns onsets rms rms_threshold sr major_onsets)
          = Some 0.5)"
proof -
  assume ne: "pause_durations onsets \<noteq> []"
  have single: "std_pop (pause_durations onsets) = 0" if "length (pause_durations onsets) = 1"
  proof -
    from that obtain p where "pause_durations onsets = [p]"
      by (cases "pause_durations onsets") auto
    then show ?thesis by (simp add: std_pop_single)
  qed
  from ne single show ?thesis
    by (simp add: analyze_timing_patterns_def Let_def np_std_def)
qed

theorem pause_regularity_witness:
  "pause_durations [0, 1, 3] \<noteq> []
   \<and> speech_rhythm_regularity (analyze_timing_patterns [0, 1, 3] [0.2, 0.01] 0.05 16000 [])
       = Some (2 / 3)
   \<and> pause_durations [2, 5] \<noteq> []
   \<and> speech_rhythm_regularity (analyze_timing_patterns [2, 5] [0.2, 0.01] 0.05 16000 [])
       = Some 1
   \<and> pause_durations [1, 1] \<noteq> []
   \<and> speech_rhythm_regularity (analyze_timing_patterns [1, 1] [0.2, 0.01] 0.05 16000 [])
       = Some 0.5"
  using pause_regularity [of "[0, 1, 3]" "[0.2, 0.01]" "0.05" 16000 "[]"]
    pause_regularity [of "[2, 5]" "[0.2, 0.01]" "0.05" 16000 "[]"]
    pause_regularity [of "[1, 1]" "[0.2, 0.01]" "0.05" 16000 "[]"]
  by (simp add: pauses_two pauses_three np_mean_def std_pop_one_two std_pop_single)

text \<open>
  With no pause at all the average falls back to 0.3, which is positive, and the
  standard deviation of the empty list is taken: the regularity is a NaN.
\<close>

lemma rhythm_no_pause_nan:
  "length onsets \<le> 1 \<Longrightarrow>
   speech_rhythm_regularity (analyze_timing_patterns onsets rms rms_threshold sr major_onsets) = None"
  by (simp add: analyze_timing_patterns_def Let_def pause_durations_def np_std_def)

subsection \<open>Spectral bands\<close>

lemma band_energy_nonneg: "0 \<le> band_energy P sp"
  unfolding band_energy_def
  by (rule sum_list_nonneg) auto

lemma total_energy_nonneg: "0 \<le> total_energy sp"
  by (simp add: total_energy_def low_energy_def mid_energy_def high_energy_def band_energy_nonneg)

lemma quality_example:
  "analyze_audio_quality [1 / 2, 1 / 4] [(100, 2), (1000, 5), (5000, 3), (9000, 7), (- 100, 2)] =
     Some \<lparr> rms_energy_avg = 3 / 8, rms_energy_max = 1 / 2, rms_energy_min = 1 / 4,
            dynamic_range_db = 20 * log 10 2,
            low_freq_energy_ratio = 1 / 5, mid_freq_energy_ratio = 1 / 2,
            high_freq_energy_ratio = 3 / 10, clarity_score = 1 / 2 \<rparr>"
  by (simp add: analyze_audio_quality_def Let_def total_energy_def low_energy_def mid_energy_def
      high_energy_def band_energy_def np_mean_def np_max_def np_min_def)

lemma quality_example_total:
  "total_energy [(100, 2), (1000, 5), (5000, 3), (9000, 7), (- 100, 2)] = 10"
  by (simp add: total_energy_def low_energy_def mid_energy_def high_energy_def band_energy_def)

lemma silent_example:
  "analyze_audio_quality [0] [(0, 0)] =
     Some \<lparr> rms_energy_avg = 0, rms_energy_max = 0, rms_energy_min = 0,
            dynamic_range_db = 0,
            low_freq_energy_ratio = 0, mid_freq_energy_ratio = 0,
            high_freq_energy_ratio = 0, clarity_score = 1 / 2 \<rparr>"
  by (simp add: analyze_audio_quality_def Let_def total_energy_def low_energy_def mid_energy_def
      high_energy_def band_energy_def np_mean_def np_max_def np_min_def)

lemma silent_example_total: "total_energy [(0, 0)] = 0"
  by (simp add: total_energy_def low_energy_def mid_energy_def high_energy_def band_energy_def)

text \<open>
  C6 as stated fails in the degenerate case: on a silent one-sample buffer the total
  band energy is 0, the mid-band ratio is reported as 0 and the clarity score as 0.5.
\<close>

theorem clarity_counterexample:
  "analyze_audio_quality [0] [(0, 0)] \<noteq> None
   \<and> total_energy [(0, 0)] = 0
   \<and> clarity_score (the (analyze_audio_quality [0] [(0, 0)])) = 0.5
   \<and> mid_freq_energy_ratio (the (analyze_audio_quality [0] [(0, 0)])) = 0
   \<and> clarity_score (the (analyze_audio_quality [0] [(0, 0)]))
       \<noteq> mid_freq_energy_ratio (the (analyze_audio_quality [0] [(0, 0)]))"
  by (simp add: silent_example silent_example_total)

text \<open>
  C6, amended: when the total band energy is positive, the clarity score equals the
  mid-band energy ratio (mid-band energy divided by the sum of the three band energies);
  when the total band energy is 0, the clarity score is 0.5 and the mid-band ratio is 0.
\<close>

theorem clarity_is_mid_ratio:
  "analyze_audio_quality rms sp = Some q \<Longrightarrow>
     (total_energy sp > 0 \<longrightarrow>
        clarity_score q = mid_energy sp / total_energy sp
      \<and> clarity_score q = mid_freq_energy_ratio q)
   \<and> (total_energy sp = 0 \<longrightarrow> clarity_score q = 0.5 \<and> mid_freq_energy_ratio q = 0)"
  by (auto simp: analyze_audio_quality_def Let_def split: if_splits)

theorem clarity_is_mid_ratio_witness:
  "total_energy [(100, 2), (1000, 5), (5000, 3), (9000, 7), (- 100, 2)] > 0
   \<and> mid_energy [(100, 2), (1000, 5), (5000, 3), (9000, 7), (- 100, 2)] = 5
   \<and> clarity_score (the (analyze_audio_quality [1 / 2, 1 / 4]
         [(100, 2), (1000, 5), (5000, 3), (9000, 7), (- 100, 2)])) = 1 / 2
   \<and> total_energy [(0, 0)] = 0
   \<and> clarity_score (the (analyze_audio_quality [0] [(0, 0)])) = 1 / 2"
  using clarity_is_mid_ratio [OF quality_example] clarity_is_mid_ratio [OF silent_example]
  by (simp add: quality_example_total silent_example_total quality_example silent_example
      mid_energy_def band_energy_def)

subsection \<open>Band ratios\<close>

lemma rel_close_nonneg:
  assumes "rel_close (1 / 2 ^ 53) c x" "0 \<le> x"
  shows "\<bar>c - x\<bar> \<le> x / 9007199254740992" "0 \<le> c"
proof -
  show "\<bar>c - x\<bar> \<le> x / 9007199254740992" using assms by (simp add: rel_close_def)
  then show "0 \<le> c" using assms(2) by linarith
qed

lemma ratio_sum_key:
  fixes l m h s T Pl Pm Ph :: real
  assumes "0 \<le> l" "0 \<le> m" "0 \<le> h"
    and "\<bar>s - (l + m)\<bar> \<le> (l + m) / 9007199254740992"
    and "\<bar>T - (s + h)\<bar> \<le> (s + h) / 9007199254740992"
    and "\<bar>Pl - l\<bar> \<le> l / 9007199254740992"
    and "\<bar>Pm - m\<bar> \<le> m / 9007199254740992"
    and "\<bar>Ph - h\<bar> \<le> h / 9007199254740992"
  shows "\<bar>Pl + Pm + Ph - T\<bar> \<le> T / 2251799813685248"
proof -
  have a: "\<bar>s - (l + m)\<bar> \<le> l / 9007199254740992 + m / 9007199254740992"
    using assms(4) by (simp add: add_divide_distrib)
  have b: "\<bar>T - (s + h)\<bar> \<le> s / 9007199254740992 + h / 9007199254740992"
    using assms(5) by (simp add: add_divide_distrib)
  show ?thesis
    using a b assms(1-3,6-8) by linarith
qed

lemma float_sum_key:
  fixes ql qm qh x y :: real
  assumes "0 \<le> ql" "0 \<le> qm" "0 \<le> qh"
    and "\<bar>ql + qm + qh - 1\<bar> \<le> 1 / 2251799813685248"
    and "\<bar>x - (ql + qm)\<bar> \<le> (ql + qm) / 9007199254740992"
    and "\<bar>y - (x + qh)\<bar> \<le> (x + qh) / 9007199254740992"
  shows "\<bar>y - 1\<bar> \<le> 1 / 1125899906842624"
proof -
  have a: "\<bar>x - (ql + qm)\<bar> \<le> ql / 9007199254740992 + qm / 9007199254740992"
    using assms(5) by (simp add: add_divide_distrib)
  have b: "\<bar>y - (x + qh)\<bar> \<le> x / 9007199254740992 + qh / 9007199254740992"
    using assms(6) by (simp add: add_divide_distrib)
  show ?thesis
    using a b assms(1-4) by linarith
qed

lemma band_sum_nonneg:
  assumes "\<forall>(f, m)\<in>set spectrum. 0 \<le> m"
    and "\<forall>xs. (\<forall>x\<in>set xs. 0 \<le> x) \<longrightarrow> 0 \<le> fsum A xs"
  shows "0 \<le> band_sum A in_band spectrum"
proof -
  have "\<forall>x\<in>set (map snd (filter (\<lambda>(f, m). in_band f) spectrum)). 0 \<le> x"
    using assms(1) by auto
  with assms(2) show ?thesis unfolding band_sum_def by blast
qed

lemma band_ratios_fields:
  "low_ratio (band_energy_ratios A spectrum) =
     (if band_total A spectrum > 0
      then fdiv A (band_sum A (\<lambda>f. f \<ge> 0 \<and> f \<le> 300) spectrum) (band_total A spectrum)
      else 0)"
  "mid_ratio (band_energy_ratios A spectrum) =
     (if band_total A spectrum > 0
      then fdiv A (band_sum A (\<lambda>f. f > 300 \<and> f \<le> 3000) spectrum) (band_total A spectrum)
      else 0)"
  "high_ratio (band_energy_ratios A spectrum) =
     (if band_total A spectrum > 0
      then fdiv A (band_sum A (\<lambda>f. f > 3000 \<and> f \<le> 8000) spectrum) (band_total A spectrum)
      else 0)"
  by (simp_all add: band_energy_ratios_def band_total_def Let_def)

lemma round_double_nonneg: "0 \<le> x \<Longrightarrow> 0 \<le> round_double x"
  using round_double_error [of x] by (simp add: abs_if field_simps split: if_splits)

lemma double_sum_nonneg_aux:
  "0 \<le> a \<Longrightarrow> \<forall>x\<in>set xs. 0 \<le> x \<Longrightarrow> 0 \<le> foldl (\<lambda>a x. round_double (a + x)) a xs"
  by (induction xs arbitrary: a) (simp_all add: round_double_nonneg)

lemma double_sum_nonneg: "\<forall>xs. (\<forall>x\<in>set xs. 0 \<le> x) \<longrightarrow> 0 \<le> fsum double_arith xs"
  by (simp add: double_ops double_sum_def double_sum_nonneg_aux)

lemma round_double_unit: "rel_close (1 / 2 ^ 53) (round_double x) x"
  using round_double_error [of x] by (simp add: rel_close_def)

lemma double_add_unit: "\<forall>a b. rel_close (1 / 2 ^ 53) (fadd double_arith a b) (a + b)"
  by (simp only: double_ops round_double_unit) simp

lemma double_div_unit:
  "\<forall>a b. b \<noteq> 0 \<longrightarrow> rel_close (1 / 2 ^ 53) (fdiv double_arith a b) (a / b)"
  by (simp only: double_ops round_double_unit) simp

lemma three_bins_sums:
  "band_sum double_arith (\<lambda>f. f \<ge> 0 \<and> f \<le> 300) three_bins = 2"
  "band_sum double_arith (\<lambda>f. f > 300 \<and> f \<le> 3000) three_bins = 7"
  "band_sum double_arith (\<lambda>f. f > 3000 \<and> f \<le> 8000) three_bins = 1"
  by (simp_all add: band_sum_def three_bins_def double_ops double_sum_def
      round_double_numeral round_double_zero_one)

lemma three_bins_total: "band_total double_arith three_bins = 10"
  by (simp add: band_total_def three_bins_sums double_ops round_double_numeral)

lemma fifth_value: "round_double (2 / 10) = 7205759403792794 / 2 ^ 55"
proof -
  have "round_double (2 / 10) = of_int (round_half_even (2 / 10 * 2 ^ (52 + 3))) / 2 ^ (52 + 3)"
    by (rule round_double_lt1) simp_all
  also have "round_half_even (2 / 10 * 2 ^ (52 + 3)) = 7205759403792794"
    by (simp add: round_half_even_def Let_def)
  finally show ?thesis by simp
qed

lemma seven_tenths_value: "round_double (7 / 10) = 6305039478318694 / 2 ^ 53"
proof -
  have "round_double (7 / 10) = of_int (round_half_even (7 / 10 * 2 ^ (52 + 1))) / 2 ^ (52 + 1)"
    by (rule round_double_lt1) simp_all
  also have "round_half_even (7 / 10 * 2 ^ (52 + 1)) = 6305039478318694"
    by (simp add: round_half_even_def Let_def)
  finally show ?thesis by simp
qed

lemma three_bins_ratios:
  "low_ratio (band_energy_ratios double_arith three_bins) = 7205759403792794 / 2 ^ 55"
  "mid_ratio (band_energy_ratios double_arith three_bins) = 6305039478318694 / 2 ^ 53"
  "high_ratio (band_energy_ratios double_arith three_bins) = 7205759403792794 / 2 ^ 56"
  using tenth_value
  by (simp_all only: band_ratios_fields three_bins_total three_bins_sums double_ops
      fifth_value seven_tenths_value tenth_def) simp_all

lemma nine_tenths_value:
  "round_double (7205759403792794 / 2 ^ 55 + 6305039478318694 / 2 ^ 53)
     = 8106479329266892 / 2 ^ 53"
proof -
  have e: "7205759403792794 / 2 ^ 55 + 6305039478318694 / 2 ^ 53
      = (16212958658533785 / 2 ^ 54 :: real)"
    by simp
  have "round_double (16212958658533785 / 2 ^ 54)
      = of_int (round_half_even (16212958658533785 / 2 ^ 54 * 2 ^ (52 + 1))) / 2 ^ (52 + 1)"
    by (rule round_double_lt1) simp_all
  also have "round_half_even (16212958658533785 / 2 ^ 54 * 2 ^ (52 + 1)) = 8106479329266892"
    by (simp add: round_half_even_def Let_def)
  finally show ?thesis by (simp only: e) simp
qed

lemma below_one_value:
  "round_double (8106479329266892 / 2 ^ 53 + 7205759403792794 / 2 ^ 56)
     = 9007199254740991 / 2 ^ 53"
proof -
  have e: "8106479329266892 / 2 ^ 53 + 7205759403792794 / 2 ^ 56
      = (72057594037927930 / 2 ^ 56 :: real)"
    by simp
  have "round_double (72057594037927930 / 2 ^ 56)
      = of_int (round_half_even (72057594037927930 / 2 ^ 56 * 2 ^ (52 + 1))) / 2 ^ (52 + 1)"
    by (rule round_double_lt1) simp_all
  also have "round_half_even (72057594037927930 / 2 ^ 56 * 2 ^ (52 + 1)) = 9007199254740991"
    by (simp add: round_half_even_def Let_def)
  finally show ?thesis by (simp only: e) simp
qed

lemma silent_bins_total: "band_total double_arith silent_bins = 0"
  by (simp add: band_total_def band_sum_def silent_bins_def double_ops double_sum_def
      round_double_zero_one)


text \<open>
  C8 as stated fails: the ratios are rounded quotients. For band energies 2, 7 and 1
  the total is 10 and is positive, the three ratios are the doubles nearest to 0.2, 0.7
  and 0.1, their exact sum is 1 - 2^-55, and added as doubles they give 1 - 2^-53:
  neither sum is 1.
\<close>

theorem band_ratios_sum_counterexample:
  "band_total double_arith three_bins > 0
   \<and> low_ratio (band_energy_ratios double_arith three_bins)
       + mid_ratio (band_energy_ratios double_arith three_bins)
       + high_ratio (band_energy_ratios double_arith three_bins) = 1 - 1 / 2 ^ 55
   \<and> fadd double_arith
        (fadd double_arith (low_ratio (band_energy_ratios double_arith three_bins))
           (mid_ratio (band_energy_ratios double_arith three_bins)))
        (high_ratio (band_energy_ratios double_arith three_bins)) = 1 - 1 / 2 ^ 53
   \<and> low_ratio (band_energy_ratios double_arith three_bins)
       + mid_ratio (band_energy_ratios double_arith three_bins)
       + high_ratio (band_energy_ratios double_arith three_bins) \<noteq> 1"
proof -
  have "fadd double_arith
        (fadd double_arith (low_ratio (band_energy_ratios double_arith three_bins))
           (mid_ratio (band_energy_ratios double_arith three_bins)))
        (high_ratio (band_energy_ratios double_arith three_bins)) = 9007199254740991 / 2 ^ 53"
    by (simp only: three_bins_ratios double_ops nine_tenths_value below_one_value)
  then show ?thesis
    by (simp add: three_bins_total three_bins_ratios)
qed


text \<open>
  C8, amended: take magnitudes that are not negative and an arithmetic whose sums of
  non-negative numbers are not negative and whose sums and quotients of two numbers
  are within the relative error 2^-53 of the exact ones. When the total band energy is
  positive, the three ratios sum to 1 within 2^-51, and added in the arithmetic they
  give 1 within 2^-50. When the total band energy is not positive it is 0, and the
  three ratios are 0.
\<close>

theorem band_ratios_sum:
  assumes mags: "\<forall>(f, m)\<in>set spectrum. 0 \<le> m"
    and sums: "\<forall>xs. (\<forall>x\<in>set xs. 0 \<le> x) \<longrightarrow> 0 \<le> fsum A xs"
    and add: "\<forall>a b. rel_close (1 / 2 ^ 53) (fadd A a b) (a + b)"
    and quot: "\<forall>a b. b \<noteq> 0 \<longrightarrow> rel_close (1 / 2 ^ 53) (fdiv A a b) (a / b)"
  shows "(band_total A spectrum > 0 \<longrightarrow>
            \<bar>low_ratio (band_energy_ratios A spectrum)
               + mid_ratio (band_energy_ratios A spectrum)
               + high_ratio (band_energy_ratios A spectrum) - 1\<bar> \<le> 1 / 2 ^ 51
          \<and> \<bar>fadd A (fadd A (low_ratio (band_energy_ratios A spectrum))
                            (mid_ratio (band_energy_ratios A spectrum)))
                    (high_ratio (band_energy_ratios A spectrum)) - 1\<bar> \<le> 1 / 2 ^ 50)
       \<and> (\<not> band_total A spectrum > 0 \<longrightarrow>
            band_total A spectrum = 0
          \<and> low_ratio (band_energy_ratios A spectrum) = 0
          \<and> mid_ratio (band_energy_ratios A spectrum) = 0
          \<and> high_ratio (band_energy_ratios A spectrum) = 0)"
proof -
  define l where "l = band_sum A (\<lambda>f. f \<ge> 0 \<and> f \<le> 300) spectrum"
  define m where "m = band_sum A (\<lambda>f. f > 300 \<and> f \<le> 3000) spectrum"
  define h where "h = band_sum A (\<lambda>f. f > 3000 \<and> f \<le> 8000) spectrum"
  define s where "s = fadd A l m"
  define T where "T = band_total A spectrum"
  have T: "T = fadd A s h" by (simp add: T_def band_total_def s_def l_def m_def h_def)
  have l: "0 \<le> l" unfolding l_def using mags sums by (rule band_sum_nonneg)
  have m: "0 \<le> m" unfolding m_def using mags sums by (rule band_sum_nonneg)
  have h: "0 \<le> h" unfolding h_def using mags sums by (rule band_sum_nonneg)
  have "rel_close (1 / 2 ^ 53) s (l + m)" using add by (simp add: s_def)
  from rel_close_nonneg [OF this] l m
  have s: "\<bar>s - (l + m)\<bar> \<le> (l + m) / 9007199254740992" "0 \<le> s" by simp_all
  have "rel_close (1 / 2 ^ 53) T (s + h)" using add by (simp add: T)
  from rel_close_nonneg [OF this] s(2) h
  have t: "\<bar>T - (s + h)\<bar> \<le> (s + h) / 9007199254740992" "0 \<le> T" by simp_all
  have fields: "low_ratio (band_energy_ratios A spectrum) = (if T > 0 then fdiv A l T else 0)"
    "mid_ratio (band_energy_ratios A spectrum) = (if T > 0 then fdiv A m T else 0)"
    "high_ratio (band_energy_ratios A spectrum) = (if T > 0 then fdiv A h T else 0)"
    by (simp_all only: band_ratios_fields T_def l_def m_def h_def)
  have pos: "\<bar>fdiv A l T + fdiv A m T + fdiv A h T - 1\<bar> \<le> 1 / 2 ^ 51
      \<and> \<bar>fadd A (fadd A (fdiv A l T) (fdiv A m T)) (fdiv A h T) - 1\<bar> \<le> 1 / 2 ^ 50"
    if Tpos: "0 < T"
  proof -
    define ql where "ql = fdiv A l T"
    define qm where "qm = fdiv A m T"
    define qh where "qh = fdiv A h T"
    have cl: "rel_close (1 / 2 ^ 53) ql (l / T)" using quot Tpos by (simp add: ql_def)
    have cm: "rel_close (1 / 2 ^ 53) qm (m / T)" using quot Tpos by (simp add: qm_def)
    have ch: "rel_close (1 / 2 ^ 53) qh (h / T)" using quot Tpos by (simp add: qh_def)
    have q: "0 \<le> ql" "0 \<le> qm" "0 \<le> qh"
      using rel_close_nonneg(2) [OF cl] rel_close_nonneg(2) [OF cm]
        rel_close_nonneg(2) [OF ch] l m h Tpos by simp_all
    have pl: "\<bar>ql * T - l\<bar> \<le> l / 9007199254740992"
      using rel_close_div [OF Tpos cl] l by simp
    have pm: "\<bar>qm * T - m\<bar> \<le> m / 9007199254740992"
      using rel_close_div [OF Tpos cm] m by simp
    have ph: "\<bar>qh * T - h\<bar> \<le> h / 9007199254740992"
      using rel_close_div [OF Tpos ch] h by simp
    have "\<bar>ql * T + qm * T + qh * T - T\<bar> \<le> T / 2251799813685248"
      using l m h s(1) t(1) pl pm ph by (rule ratio_sum_key)
    moreover have "ql * T + qm * T + qh * T - T = (ql + qm + qh - 1) * T"
      by (simp add: algebra_simps)
    ultimately have "\<bar>ql + qm + qh - 1\<bar> * T \<le> 1 / 2251799813685248 * T"
      using Tpos by (simp add: abs_mult)
    then have exact: "\<bar>ql + qm + qh - 1\<bar> \<le> 1 / 2251799813685248"
      using Tpos by (simp only: mult_le_cancel_right_pos)
    define x where "x = fadd A ql qm"
    define y where "y = fadd A x qh"
    have "rel_close (1 / 2 ^ 53) x (ql + qm)" using add by (simp add: x_def)
    from rel_close_nonneg [OF this] q
    have x: "\<bar>x - (ql + qm)\<bar> \<le> (ql + qm) / 9007199254740992" "0 \<le> x" by simp_all
    have "rel_close (1 / 2 ^ 53) y (x + qh)" using add by (simp add: y_def)
    from rel_close_nonneg [OF this] x(2) q
    have y: "\<bar>y - (x + qh)\<bar> \<le> (x + qh) / 9007199254740992" by simp
    have "\<bar>y - 1\<bar> \<le> 1 / 1125899906842624"
      using q exact x(1) y by (rule float_sum_key)
    with exact show ?thesis
      by (simp add: ql_def qm_def qh_def x_def y_def)
  qed
  have zero: "T = 0" if "\<not> 0 < T" using that t(2) by simp
  show ?thesis
    using pos zero by (simp add: fields T_def [symmetric])
qed


theorem band_ratios_sum_witness:
  "band_total double_arith three_bins > 0
   \<and> \<bar>low_ratio (band_energy_ratios double_arith three_bins)
        + mid_ratio (band_energy_ratios double_arith three_bins)
        + high_ratio (band_energy_ratios double_arith three_bins) - 1\<bar> \<le> 1 / 2 ^ 51
   \<and> \<bar>fadd double_arith
         (fadd double_arith (low_ratio (band_energy_ratios double_arith three_bins))
            (mid_ratio (band_energy_ratios double_arith three_bins)))
         (high_ratio (band_energy_ratios double_arith three_bins)) - 1\<bar> \<le> 1 / 2 ^ 50
   \<and> band_total double_arith silent_bins = 0
   \<and> low_ratio (band_energy_ratios double_arith silent_bins) = 0
   \<and> mid_ratio (band_energy_ratios double_arith silent_bins) = 0
   \<and> high_ratio (band_energy_ratios double_arith silent_bins) = 0"
proof -
  have m1: "\<forall>(f, m)\<in>set three_bins. 0 \<le> m" by (simp add: three_bins_def)
  have m2: "\<forall>(f, m)\<in>set silent_bins. 0 \<le> m" by (simp add: silent_bins_def)
  have p: "band_total double_arith three_bins > 0" by (simp add: three_bins_total)
  have z: "\<not> band_total double_arith silent_bins > 0" by (simp add: silent_bins_total)
  note loud = band_ratios_sum [OF m1 double_sum_nonneg double_add_unit double_div_unit]
  note quiet = band_ratios_sum [OF m2 double_sum_nonneg double_add_unit double_div_unit]
  from loud [THEN conjunct1] p quiet [THEN conjunct2] z show ?thesis by blast
qed


subsection \<open>Bounds of the voice parameters\<close>

lemma py_round2_ge:
  assumes "real_of_int k / 100 \<le> x"
  shows "real_of_int k / 100 \<le> py_round2 x"
proof -
  from assms have "real_of_int k \<le> x * 100" by simp
  then have "k \<le> \<lfloor>x * 100\<rfloor>" by (simp add: le_floor_iff)
  then show ?thesis
    by (simp add: py_round2_def Let_def)
qed

lemma py_round2_le:
  assumes "x \<le> real_of_int k / 100"
  shows "py_round2 x \<le> real_of_int k / 100"
proof -
  define f where "f = \<lfloor>x * 100\<rfloor>"
  from assms have le: "x * 100 \<le> real_of_int k" by simp
  have fl: "real_of_int f \<le> x * 100" by (simp add: f_def)
  have fk: "f \<le> k" using le fl by linarith
  have up: "f + 1 \<le> k" if "\<not> x * 100 - real_of_int f < 1 / 2"
  proof -
    from that le have "real_of_int f < real_of_int k" by linarith
    then show ?thesis by simp
  qed
  have "py_round2 x = real_of_int f / 100 \<or> py_round2 x = real_of_int (f + 1) / 100"
    by (simp add: py_round2_def Let_def f_def)
  moreover have "py_round2 x = real_of_int f / 100" if "x * 100 - real_of_int f < 1 / 2"
    using that by (simp add: py_round2_def Let_def f_def)
  ultimately consider "py_round2 x = real_of_int f / 100"
    | "py_round2 x = real_of_int (f + 1) / 100" "\<not> x * 100 - real_of_int f < 1 / 2"
    by blast
  then show ?thesis
  proof cases
    case 1
    from fk have "real_of_int f \<le> real_of_int k" by simp
    with 1 show ?thesis by (simp add: divide_right_mono)
  next
    case 2
    from up [OF 2(2)] have "real_of_int (f + 1) \<le> real_of_int k" by (simp only: of_int_le_iff)
    with 2(1) show ?thesis by (simp add: divide_right_mono)
  qed
qed

lemma py_round2_clamped:
  "real_of_int lo / 100 \<le> py_round2 (max (real_of_int lo / 100) (min (real_of_int hi / 100) x))"
  "lo \<le> hi \<Longrightarrow> py_round2 (max (real_of_int lo / 100) (min (real_of_int hi / 100) x)) \<le> real_of_int hi / 100"
  by (rule py_round2_ge, simp) (rule py_round2_le, simp)

lemma map_settings_bounds:
  "voice_settings_in_bounds (map_to_elevenlabs_settings vc aq ap ta)"
  using py_round2_clamped [of 10 90] py_round2_clamped [of 30 90]
  by (simp add: voice_settings_in_bounds_def map_to_elevenlabs_settings_def Let_def)

lemma clamp_lo: "(lo::real) \<le> max lo (min hi v)"
  by simp

lemma clamp_hi: "lo \<le> hi \<Longrightarrow> max lo (min hi v) \<le> (hi::real)"
  by simp

lemma in_bounds_upd:
  "0.1 \<le> s \<Longrightarrow> s \<le> 0.9 \<Longrightarrow> 0.1 \<le> y \<Longrightarrow> y \<le> 0.9 \<Longrightarrow> 0.3 \<le> m \<Longrightarrow> m \<le> 0.9 \<Longrightarrow>
   settings_in_bounds (b(''stability'' \<mapsto> s, ''style'' \<mapsto> y, ''similarity_boost'' \<mapsto> m))"
  by (simp add: settings_in_bounds_def)

lemma clamp_settings_bounds: "settings_in_bounds (clamp_settings b)"
  unfolding clamp_settings_def Let_def
  by (rule in_bounds_upd) (rule clamp_lo | rule clamp_hi, simp)+

text \<open>
  C1: whatever the analysis dictionaries hold, the record of the parameter mapper has
  stability and style in [0.1, 0.9] and similarity_boost in [0.3, 0.9], and so has the
  record its handler falls back to; whatever the index, the number of dialogues, the
  text and the analysis configuration (trajectories, boundary pitches, emotion
  segments, stored settings), the per-dialogue settings have the three entries, within
  the same bounds.
\<close>

theorem voice_parameters_bounded:
  "voice_settings_in_bounds (map_to_elevenlabs_settings vc aq ap ta)
   \<and> voice_settings_in_bounds fallback_settings
   \<and> settings_in_bounds (get_dialogue_settings_version_b i n t cfg)"
  by (simp add: map_settings_bounds clamp_settings_bounds get_dialogue_settings_version_b_def
      Let_def) (simp add: voice_settings_in_bounds_def fallback_settings_def)

theorem voice_parameters_bounded_witness:
  "voice_settings_in_bounds
     (map_to_elevenlabs_settings
        [''pitch_variation_coefficient'' \<mapsto> 1000, ''expressiveness_score'' \<mapsto> - 70]
        [''clarity_score'' \<mapsto> 1000000] Map.empty Map.empty)
   \<and> settings_in_bounds
       (get_dialogue_settings_version_b 0 1 ''(laughs) arre'' extreme_config)"
  using voice_parameters_bounded
    [of "[''pitch_variation_coefficient'' \<mapsto> 1000, ''expressiveness_score'' \<mapsto> - 70]"
        "[''clarity_score'' \<mapsto> 1000000]" Map.empty Map.empty 0 1 "''(laughs) arre''"
        extreme_config]
  by simp

subsection \<open>Per-dialogue style\<close>

lemma apply_opening_id:
  "opening_pitch_trajectory opening \<noteq> Some ''rising'' \<Longrightarrow>
   opening_pitch_trajectory opening \<noteq> Some ''falling'' \<Longrightarrow>
   opt_get (opening_start_pitch_hz opening) 0 \<le> 180 \<Longrightarrow>
   apply_opening opening b = b"
  by (simp add: apply_opening_def Let_def)

lemma apply_closing_id:
  "closing_pitch_trajectory closing \<noteq> Some ''falling'' \<Longrightarrow>
   opt_get (closing_end_pitch_hz closing) 0 \<ge> 170 \<Longrightarrow>
   apply_closing closing b = b"
  by (simp add: apply_closing_def Let_def)

lemma opening_step_id:
  assumes "no_boundary_adjustment i n cfg"
  shows "(case cfg_script_opening cfg of
            Some opening \<Rightarrow> if i = 0 then apply_opening opening b else b
          | None \<Rightarrow> b) = b"
proof (cases "cfg_script_opening cfg")
  case None
  then show ?thesis by simp
next
  case (Some ov)
  show ?thesis
  proof (cases "i = 0")
    case True
    with assms Some have "apply_opening ov b = b"
      by (intro apply_opening_id) (simp_all add: no_boundary_adjustment_def)
    with Some True show ?thesis by simp
  next
    case False
    with Some show ?thesis by simp
  qed
qed

lemma closing_step_id:
  assumes "no_boundary_adjustment i n cfg"
  shows "(case cfg_script_closing cfg of
            Some closing \<Rightarrow> if int i = int n - 1 then apply_closing closing b else b
          | None \<Rightarrow> b) = b"
proof (cases "cfg_script_closing cfg")
  case None
  then show ?thesis by simp
next
  case (Some closing)
  show ?thesis
  proof (cases "int i = int n - 1")
    case True
    with assms Some have "apply_closing closing b = b"
      by (intro apply_closing_id) (simp_all add: no_boundary_adjustment_def)
    with Some True show ?thesis by simp
  next
    case False
    with Some show ?thesis by simp
  qed
qed

lemma no_emotion_namaste: "detect_emotion_in_text ''Namaste'' = None"
  by code_simp

lemma fold_no_emotion:
  "list_all (\<lambda>seg. cfg_index seg \<noteq> Some (int i)
                 \<or> (cfg_emotion_type seg \<noteq> Some ''laughter''
                     \<and> cfg_emotion_type seg \<noteq> Some ''excitement'')) segs \<Longrightarrow>
   fold (apply_emotion_segment i) segs b = b"
  by (induction segs arbitrary: b) (auto simp: apply_emotion_segment_def Let_def)

lemma clamp_settings_style:
  "clamp_settings b ''style'' = Some (max 0.1 (min 0.9 (dict_get b ''style'' 0.55)))"
  by (simp add: clamp_settings_def Let_def dict_get_def)

lemma dict_get_upd_same: "dict_get (b(k \<mapsto> v)) k d = v"
  by (simp add: dict_get_def)

text \<open>
  C9 as stated fails: a first dialogue dropping from 220 Hz to 150 Hz that the analysis
  labels falling gets the style 0.55 + 0.05 - 0.03 = 0.57 from the default 0.55, not
  0.52.
\<close>

theorem pitch_drop_counterexample:
  "get_dialogue_settings_version_b 0 2 ''Namaste'' (drop_config ''falling'') ''style'' = Some 0.57
   \<and> dict_get DEFAULT_SETTINGS ''style'' 0.55 - 0.03 = 0.52
   \<and> get_dialogue_settings_version_b 0 2 ''Namaste'' (drop_config ''falling'') ''style''
       \<noteq> Some (dict_get DEFAULT_SETTINGS ''style'' 0.55 - 0.03)"
  by code_simp

text \<open>
  C9, amended: for a dialogue that has a pitch entry with positive start and end pitch,
  the start more than 10 Hz above the end, and a trajectory that is neither falling nor
  rising, when no opening or closing rule changes the settings, neither the text nor
  the audio analysis carries an emotion for it, and the base style lies in [0.13, 0.9],
  the style of the dialogue is exactly the base style minus 0.03.
\<close>

theorem pitch_drop_style:
  assumes idx: "dialogue_index < length (cfg_per_dialogue cfg)"
    and traj: "opt_get (cfg_trajectory (cfg_per_dialogue cfg ! dialogue_index)) ''stable'' \<noteq> ''falling''"
      "opt_get (cfg_trajectory (cfg_per_dialogue cfg ! dialogue_index)) ''stable'' \<noteq> ''rising''"
    and pitch: "opt_get (cfg_end_pitch_hz (cfg_per_dialogue cfg ! dialogue_index)) 0 > 0"
      "opt_get (cfg_start_pitch_hz (cfg_per_dialogue cfg ! dialogue_index)) 0
         - opt_get (cfg_end_pitch_hz (cfg_per_dialogue cfg ! dialogue_index)) 0 > 10"
    and boundary: "no_boundary_adjustment dialogue_index total_dialogues cfg"
    and silent: "detect_emotion_in_text text_v = None"
    and audio: "no_audio_emotion dialogue_index cfg"
    and base: "0.13 \<le> dict_get (opt_get (recommended_elevenlabs_settings cfg) DEFAULT_SETTINGS) ''style'' 0.55"
      "dict_get (opt_get (recommended_elevenlabs_settings cfg) DEFAULT_SETTINGS) ''style'' 0.55 \<le> 0.9"
  shows "get_dialogue_settings_version_b dialogue_index total_dialogues text_v cfg ''style''
           = Some (dict_get (opt_get (recommended_elevenlabs_settings cfg) DEFAULT_SETTINGS)
                     ''style'' 0.55 - 0.03)"
proof -
  define base_settings where
    "base_settings = opt_get (recommended_elevenlabs_settings cfg) DEFAULT_SETTINGS"
  define s where "s = dict_get base_settings ''style'' 0.55"
  define dp where "dp = cfg_per_dialogue cfg ! dialogue_index"
  have sb: "0.13 \<le> s" "s \<le> 0.9"
    using base by (simp_all add: s_def base_settings_def)
  have fold_id: "fold (apply_emotion_segment dialogue_index) (cfg_emotion_segments cfg) b = b" for b
    using audio by (simp add: no_audio_emotion_def fold_no_emotion)
  have m: "max 0.1 (s - 0.03) = s - 0.03"
    using sb by simp
  have pd: "apply_dialogue_pitch dp base_settings = base_settings(''style'' \<mapsto> s - 0.03)"
    using traj pitch m by (simp add: apply_dialogue_pitch_def Let_def s_def dp_def)
  have steps: "get_dialogue_settings_version_b dialogue_index total_dialogues text_v cfg
          = clamp_settings (apply_dialogue_pitch dp base_settings)"
    using idx
    by (simp add: get_dialogue_settings_version_b_def Let_def opening_step_id [OF boundary]
        closing_step_id [OF boundary] silent apply_text_emotion_def fold_id
        base_settings_def dp_def)
  have "clamp_settings (base_settings(''style'' \<mapsto> s - 0.03)) ''style''
          = Some (max 0.1 (min 0.9 (s - 0.03)))"
    by (simp only: clamp_settings_style dict_get_upd_same)
  also have "max 0.1 (min 0.9 (s - 0.03)) = s - 0.03"
    using sb by simp
  finally have "get_dialogue_settings_version_b dialogue_index total_dialogues text_v cfg ''style''
          = Some (s - 0.03)"
    by (simp only: steps pd)
  then show ?thesis
    unfolding s_def base_settings_def .
qed

theorem pitch_drop_style_witness:
  "get_dialogue_settings_version_b 0 2 ''Namaste'' (drop_config ''stable'') ''style'' = Some 0.52"
  using pitch_drop_style [of 0 "drop_config ''stable''" 2 "''Namaste''"]
  by (simp add: drop_config_def opt_get_def dict_get_def DEFAULT_SETTINGS_def
      no_boundary_adjustment_def no_audio_emotion_def no_emotion_namaste)

subsection \<open>Emotion labels\<close>













subsection \<open>Dialogue pitch entries\<close>












lemma upt_four: "[0..<4] = [0, 1, 2, 3]"
  by code_simp


















end
